theory Spec2Isabelle
  imports Complex_Main "HOL-Library.Word" "HOL-Library.Char_ord" "HOL-Library.List_Lexorder"
begin

section \<open>Data model of the backend\<close>

text \<open>
  The backend is the C\# minimal-API program at the end of
  \<^verbatim>\<open>src/frontend/app/edit-product.tsx\<close> (from line 476 on). Its three model classes
  become records. Field names carry the prefix of their class (\<open>p_\<close> for Product,
  \<open>i_\<close> for TransactionItem, \<open>t_\<close> for Transaction), because \<open>Id\<close>, \<open>Price\<close>,
  \<open>Total\<close> and \<open>CreatedAt\<close> occur in several classes and \<open>Id\<close> is a HOL constant.

  \<^item> C\# \<open>int\<close> is a 32-bit two's complement integer: \<open>32 word\<close>, read with \<open>sint\<close>;
    \<open>-=\<close> and \<open>+\<close> wrap around, \<open><\<close> is the signed comparison.
  \<^item> C\# \<open>double\<close> is the type parameter \<open>'m\<close>. The backend does only two things with
    a double: it compares it with \<open>0\<close> and it adds totals up, so \<open>'m\<close> is only asked to
    have a \<open>0\<close> and a \<open>+\<close>, with no law assumed about either. Every theorem below
    therefore holds whatever the rounding of \<open>+\<close> is.
  \<^item> \<open>DateTime\<close> is its tick count (100 ns units), an integer.
  \<^item> \<open>Name\<close>, \<open>Description\<close> and \<open>Category\<close> of a Product are tested against
    \<open>null\<close> by the update handler (\<open>??\<close>), so they are \<open>string option\<close> with \<open>None\<close>
    for \<open>null\<close>, like the declared-nullable \<open>Image\<close>, \<open>CustomerName\<close> and \<open>Notes\<close>.
  \<^item> The navigation property \<open>TransactionItem.Transaction\<close> points back to the owner and
    is represented by the containment of the item in \<open>t_Items\<close>.
\<close>

type_synonym int32 = "32 word"
type_synonym DateTime = int

record 'm Product =
  p_Id :: int32
  p_Name :: "string option"
  p_Description :: "string option"
  p_Price :: 'm
  p_Stock :: int32
  p_Category :: "string option"
  p_Image :: "string option"
  p_IsActive :: bool
  p_CreatedAt :: DateTime
  p_UpdatedAt :: DateTime

record 'm TransactionItem =
  i_Id :: int32
  i_TransactionId :: int32
  i_ProductId :: int32
  i_ProductName :: string
  i_Price :: 'm
  i_Quantity :: int32
  i_Total :: 'm

record 'm Transaction =
  t_Id :: int32
  t_TransactionNumber :: string
  t_CreatedAt :: DateTime
  t_Status :: string
  t_Subtotal :: 'm
  t_Tax :: 'm
  t_Discount :: 'm
  t_Total :: 'm
  t_PaymentMethod :: string
  t_CustomerName :: "string option"
  t_Notes :: "string option"
  t_Items :: "'m TransactionItem list"

text \<open>
  \<open>AppDbContext\<close>: the two tables, each a list of rows in insertion order. The items of
  a transaction are stored with it (\<open>DbSet<TransactionItem>\<close> is never queried on its own).
\<close>

record 'm AppDbContext =
  Products :: "'m Product list"
  Transactions :: "'m Transaction list"

text \<open>The results the handlers return: \<open>Results.Ok\<close>, \<open>Results.Created\<close>, \<open>Results.NotFound\<close>.\<close>

datatype 'a IResult =
    is_Ok: Ok (body: 'a)
  | is_Created: Created (location: string) (body: 'a)
  | is_NotFound: NotFound

section \<open>The persistence layer as the handlers use it\<close>

text \<open>
  \<open>db.Products.FindAsync(id)\<close> returns the row whose key is \<open>id\<close>, or \<open>null\<close>. The entity
  it returns is tracked: assignments to its properties change that row when
  \<open>SaveChangesAsync\<close> runs, and a later \<open>FindAsync\<close> with the same key in the same request
  returns the same, already modified entity. \<open>update_entity\<close> is that assignment on the
  table. \<open>SaveChangesAsync\<close> is taken to succeed; failures of the database itself
  (connection loss, constraint violations) are outside this model.
\<close>

definition FindAsync :: "'m Product list \<Rightarrow> int32 \<Rightarrow> 'm Product option" where
  "FindAsync ps k = find (\<lambda>p. p_Id p = k) ps"

fun update_entity :: "int32 \<Rightarrow> ('m Product \<Rightarrow> 'm Product) \<Rightarrow> 'm Product list \<Rightarrow> 'm Product list" where
  "update_entity k f [] = []"
| "update_entity k f (p # ps) = (if p_Id p = k then f p # ps else p # update_entity k f ps)"

text \<open>\<open>CountAsync\<close> returns a C\# \<open>int\<close>; \<open>Sum\<close> on doubles starts at \<open>0\<close> and adds from the left.\<close>

definition CountAsync :: "'a list \<Rightarrow> int32" where
  "CountAsync xs = word_of_nat (length xs)"

definition Sum :: "('m::{zero,plus}) list \<Rightarrow> 'm" where
  "Sum xs = foldl (+) 0 xs"

text \<open>
  \<open>DateTime.Date\<close> is the instant with the time of day cleared: the tick count rounded down
  to a multiple of the ticks of one day.
\<close>

definition TicksPerDay :: int where
  "TicksPerDay = 864000000000"

definition Date :: "DateTime \<Rightarrow> DateTime" where
  "Date t = t - t mod TicksPerDay"

section \<open>Number formatting\<close>

text \<open>
  \<open>dec\<close> writes a natural number in decimal. \<open>format_000000\<close> is the custom numeric
  format string \<open>000000\<close> of the interpolation \<^verbatim>\<open>{count + 1:000000}\<close>: at least six
  digits, padded with zeros on the left, a minus sign in front of a negative number.
  \<open>Int32_ToString\<close> is the default formatting of \<^verbatim>\<open>{product.Id}\<close>.
\<close>

definition digit :: "nat \<Rightarrow> char" where
  "digit d = ''0123456789'' ! d"

function dec :: "nat \<Rightarrow> string" where
  "dec n = (if n < 10 then [digit n] else dec (n div 10) @ [digit (n mod 10)])"
  by pat_completeness auto
termination
  by (relation "measure (\<lambda>n. n)") auto

declare dec.simps [simp del]

definition pad6 :: "string \<Rightarrow> string" where
  "pad6 s = replicate (6 - length s) (CHR ''0'') @ s"

definition format_000000 :: "int \<Rightarrow> string" where
  "format_000000 v = (if v < 0 then ''-'' @ pad6 (dec (nat (- v))) else pad6 (dec (nat v)))"

definition Int32_ToString :: "int32 \<Rightarrow> string" where
  "Int32_ToString k = (if sint k < 0 then ''-'' @ dec (nat (- sint k)) else dec (nat (sint k)))"

section \<open>Product endpoints\<close>

text \<open>
  Every handler takes the database and returns its result with the database after
  \<open>SaveChangesAsync\<close>. \<open>clk\<close> is the clock of the request: \<open>clk n\<close> is what the \<open>n\<close>-th
  evaluation of \<open>DateTime.UtcNow\<close> in the handler body returns (counting from 0).
  \<open>newId\<close> is the key the database generates for an inserted row.
\<close>

text \<open>\<^verbatim>\<open>GET /api/products\<close>\<close>

definition get_products :: "'m AppDbContext \<Rightarrow> 'm Product list" where
  "get_products db = filter p_IsActive (Products db)"

text \<open>\<^verbatim>\<open>GET /api/products/{id}\<close>\<close>

definition get_product :: "'m AppDbContext \<Rightarrow> int32 \<Rightarrow> 'm Product IResult" where
  "get_product db k = (case FindAsync (Products db) k of Some p \<Rightarrow> Ok p | None \<Rightarrow> NotFound)"

text \<open>\<^verbatim>\<open>POST /api/products\<close>\<close>

definition post_product ::
  "'m AppDbContext \<Rightarrow> (nat \<Rightarrow> DateTime) \<Rightarrow> int32 \<Rightarrow> 'm Product \<Rightarrow> 'm Product IResult \<times> 'm AppDbContext" where
  "post_product db clk newId product =
     (let product = product\<lparr>p_CreatedAt := clk 0\<rparr>;
          product = product\<lparr>p_UpdatedAt := clk 1\<rparr>;
          product = product\<lparr>p_Id := newId\<rparr>;
          db = db\<lparr>Products := Products db @ [product]\<rparr>
      in (Created (''/api/products/'' @ Int32_ToString (p_Id product)) product, db))"

text \<open>\<^verbatim>\<open>PUT /api/products/{id}\<close>\<close>

definition merge_update :: "DateTime \<Rightarrow> ('m::zero) Product \<Rightarrow> 'm Product \<Rightarrow> 'm Product" where
  "merge_update now update product =
     product\<lparr>
       p_Name := (case p_Name update of Some n \<Rightarrow> Some n | None \<Rightarrow> p_Name product),
       p_Description := (case p_Description update of Some d \<Rightarrow> Some d | None \<Rightarrow> p_Description product),
       p_Price := (if p_Price update \<noteq> 0 then p_Price update else p_Price product),
       p_Stock := (if p_Stock update \<noteq> 0 then p_Stock update else p_Stock product),
       p_Category := (case p_Category update of Some c \<Rightarrow> Some c | None \<Rightarrow> p_Category product),
       p_Image := (case p_Image update of Some i \<Rightarrow> Some i | None \<Rightarrow> p_Image product),
       p_IsActive := p_IsActive update,
       p_UpdatedAt := now\<rparr>"

definition put_product ::
  "('m::zero) AppDbContext \<Rightarrow> (nat \<Rightarrow> DateTime) \<Rightarrow> int32 \<Rightarrow> 'm Product \<Rightarrow> 'm Product IResult \<times> 'm AppDbContext" where
  "put_product db clk k update =
     (case FindAsync (Products db) k of
        None \<Rightarrow> (NotFound, db)
      | Some product \<Rightarrow>
          (Ok (merge_update (clk 0) update product),
           db\<lparr>Products := update_entity k (merge_update (clk 0) update) (Products db)\<rparr>))"

text \<open>\<^verbatim>\<open>DELETE /api/products/{id}\<close>; the result carries the \<open>message\<close> of the anonymous object.\<close>

definition delete_product ::
  "'m AppDbContext \<Rightarrow> (nat \<Rightarrow> DateTime) \<Rightarrow> int32 \<Rightarrow> string IResult \<times> 'm AppDbContext" where
  "delete_product db clk k =
     (case FindAsync (Products db) k of
        None \<Rightarrow> (NotFound, db)
      | Some product \<Rightarrow>
          (Ok ''Product deleted successfully'',
           db\<lparr>Products := update_entity k (\<lambda>p. p\<lparr>p_IsActive := False, p_UpdatedAt := clk 0\<rparr>) (Products db)\<rparr>))"

section \<open>Transaction endpoint\<close>

text \<open>
  The \<open>foreach\<close> loop of \<^verbatim>\<open>POST /api/transactions\<close>, over the items in order. An item
  whose product is not found is passed over; otherwise the found row loses the item's
  quantity and gets the next reading of the clock. \<open>n\<close> is the number of clock readings
  made so far.
\<close>

fun foreach_item ::
  "(nat \<Rightarrow> DateTime) \<Rightarrow> nat \<Rightarrow> 'm Product list \<Rightarrow> 'm TransactionItem list \<Rightarrow> 'm Product list" where
  "foreach_item clk n ps [] = ps"
| "foreach_item clk n ps (item # items) =
     (case FindAsync ps (i_ProductId item) of
        None \<Rightarrow> foreach_item clk n ps items
      | Some product \<Rightarrow>
          foreach_item clk (Suc n)
            (update_entity (i_ProductId item)
               (\<lambda>p. p\<lparr>p_Stock := p_Stock p - i_Quantity item, p_UpdatedAt := clk n\<rparr>) ps)
            items)"

text \<open>
  \<open>db.Transactions.Add\<close> followed by \<open>SaveChangesAsync\<close> inserts the transaction and its
  items: the database generates the key \<open>newId\<close> of the transaction and the key
  \<open>itemIds k\<close> of its \<open>k\<close>-th item, and every item gets the foreign key of its owner.
\<close>

definition Add_Transaction ::
  "int32 \<Rightarrow> (nat \<Rightarrow> int32) \<Rightarrow> 'm Transaction \<Rightarrow> 'm Transaction" where
  "Add_Transaction newId itemIds t =
     t\<lparr>t_Id := newId,
       t_Items := map (\<lambda>(k, item). item\<lparr>i_Id := itemIds k, i_TransactionId := newId\<rparr>)
                    (enumerate 0 (t_Items t))\<rparr>"

definition TransactionNumber :: "int32 \<Rightarrow> string" where
  "TransactionNumber count = ''TXN-'' @ format_000000 (sint (count + 1))"

text \<open>\<^verbatim>\<open>POST /api/transactions\<close>\<close>

definition post_transaction ::
  "'m AppDbContext \<Rightarrow> (nat \<Rightarrow> DateTime) \<Rightarrow> int32 \<Rightarrow> (nat \<Rightarrow> int32) \<Rightarrow> 'm Transaction
     \<Rightarrow> 'm Transaction IResult \<times> 'm AppDbContext" where
  "post_transaction db clk newId itemIds transaction =
     (let count = CountAsync (Transactions db);
          transaction = transaction\<lparr>t_TransactionNumber := TransactionNumber count\<rparr>;
          transaction = transaction\<lparr>t_CreatedAt := clk 0\<rparr>;
          transaction = transaction\<lparr>t_Status := ''completed''\<rparr>;
          products = foreach_item clk 1 (Products db) (t_Items transaction);
          transaction = Add_Transaction newId itemIds transaction;
          db = db\<lparr>Products := products, Transactions := Transactions db @ [transaction]\<rparr>
      in (Created (''/api/transactions/'' @ Int32_ToString (t_Id transaction)) transaction, db))"

section \<open>Dashboard statistics\<close>

record 'm DashboardStats =
  totalProducts :: int32
  totalTransactions :: int32
  todayRevenue :: 'm
  todayTransactions :: int32
  lowStockCount :: int32

text \<open>\<^verbatim>\<open>GET /api/dashboard/stats\<close>\<close>

definition get_dashboard_stats ::
  "('m::{zero,plus}) AppDbContext \<Rightarrow> (nat \<Rightarrow> DateTime) \<Rightarrow> 'm DashboardStats IResult" where
  "get_dashboard_stats db clk =
     (let todayStart = Date (clk 0);
          todaySales = filter (\<lambda>t. t_CreatedAt t \<ge> todayStart) (Transactions db)
      in Ok \<lparr>totalProducts = CountAsync (filter p_IsActive (Products db)),
             totalTransactions = CountAsync (Transactions db),
             todayRevenue = Sum (map t_Total todaySales),
             todayTransactions = CountAsync todaySales,
             lowStockCount = CountAsync (filter (\<lambda>p. p_Stock p <s 10 \<and> p_IsActive p) (Products db))\<rparr>)"

section \<open>Binding a request body to a Product\<close>

text \<open>
  The handlers of \<^verbatim>\<open>POST /api/products\<close> and \<^verbatim>\<open>PUT /api/products/{id}\<close> receive a
  \<open>Product\<close> object built from the JSON body: the object is created with the property
  initialisers of the class (\<open>new_Product\<close>) and every property the body contains is then
  assigned. A body is a record of optional properties, \<open>None\<close> for a property the body
  does not contain; for a string property \<open>Some None\<close> is the JSON \<open>null\<close>. The two
  timestamps of the bound object are overwritten or never read by the handlers, so a
  body carries none.
\<close>

record 'm ProductBody =
  b_id :: "int32 option"
  b_name :: "string option option"
  b_description :: "string option option"
  b_price :: "'m option"
  b_stock :: "int32 option"
  b_category :: "string option option"
  b_image :: "string option option"
  b_isActive :: "bool option"

definition new_Product :: "DateTime \<Rightarrow> DateTime \<Rightarrow> ('m::zero) Product" where
  "new_Product now1 now2 =
     \<lparr>p_Id = 0, p_Name = Some [], p_Description = Some [], p_Price = 0, p_Stock = 0,
      p_Category = Some ''General'', p_Image = None, p_IsActive = True,
      p_CreatedAt = now1, p_UpdatedAt = now2\<rparr>"

definition bind_Product :: "DateTime \<Rightarrow> DateTime \<Rightarrow> ('m::zero) ProductBody \<Rightarrow> 'm Product" where
  "bind_Product now1 now2 b =
     (let d = new_Product now1 now2 in
      \<lparr>p_Id = (case b_id b of None \<Rightarrow> p_Id d | Some v \<Rightarrow> v),
       p_Name = (case b_name b of None \<Rightarrow> p_Name d | Some v \<Rightarrow> v),
       p_Description = (case b_description b of None \<Rightarrow> p_Description d | Some v \<Rightarrow> v),
       p_Price = (case b_price b of None \<Rightarrow> p_Price d | Some v \<Rightarrow> v),
       p_Stock = (case b_stock b of None \<Rightarrow> p_Stock d | Some v \<Rightarrow> v),
       p_Category = (case b_category b of None \<Rightarrow> p_Category d | Some v \<Rightarrow> v),
       p_Image = (case b_image b of None \<Rightarrow> p_Image d | Some v \<Rightarrow> v),
       p_IsActive = (case b_isActive b of None \<Rightarrow> p_IsActive d | Some v \<Rightarrow> v),
       p_CreatedAt = p_CreatedAt d, p_UpdatedAt = p_UpdatedAt d\<rparr>)"

section \<open>The cart screen of the client\<close>

text \<open>
  \<open>calculateTotal\<close> and the request body built by \<open>processTransaction\<close> in
  \<^verbatim>\<open>src/frontend/app/products.tsx\<close>. JavaScript numbers are the type parameter \<open>'n\<close>
  with \<open>0\<close>, \<open>+\<close> and \<open>*\<close>, again with no law assumed. \<open>processTransaction\<close> sends
  nothing for an empty cart (\<open>None\<close>). The keys of the body carry the prefix \<open>d_\<close>;
  \<open>d_total\<close> is the \<open>total\<close> of a line and \<open>d_grand_total\<close> the \<open>total\<close> of the body.
\<close>

record 'n ClientProduct =
  c_id :: string
  c_name :: string
  c_price :: 'n
  c_stock :: 'n
  c_category :: string
  c_image :: "string option"

record 'n CartItem =
  ci_product :: "'n ClientProduct"
  ci_quantity :: 'n

record 'n ItemData =
  d_product_id :: string
  d_product_name :: string
  d_price :: 'n
  d_quantity :: 'n
  d_total :: 'n

record 'n TransactionData =
  d_items :: "'n ItemData list"
  d_subtotal :: 'n
  d_tax :: 'n
  d_discount :: 'n
  d_grand_total :: 'n
  d_payment_method :: string
  d_customer_name :: "string option"
  d_notes :: "string option"

definition calculateTotal :: "('n::{zero,plus,times}) CartItem list \<Rightarrow> 'n" where
  "calculateTotal cart = foldl (\<lambda>sum item. sum + c_price (ci_product item) * ci_quantity item) 0 cart"

definition processTransaction :: "('n::{zero,plus,times}) CartItem list \<Rightarrow> 'n TransactionData option" where
  "processTransaction cart =
     (if length cart = 0 then None
      else Some
        \<lparr>d_items = map (\<lambda>item.
             \<lparr>d_product_id = c_id (ci_product item),
              d_product_name = c_name (ci_product item),
              d_price = c_price (ci_product item),
              d_quantity = ci_quantity item,
              d_total = c_price (ci_product item) * ci_quantity item\<rparr>) cart,
         d_subtotal = calculateTotal cart,
         d_tax = 0,
         d_discount = 0,
         d_grand_total = calculateTotal cart,
         d_payment_method = ''cash'',
         d_customer_name = None,
         d_notes = None\<rparr>)"

section \<open>What a request asks of a product\<close>

text \<open>
  The quantities of the items of a request that name the product \<open>k\<close>, added up: in
  32-bit arithmetic, as the loop subtracts them, and as mathematical integers.
\<close>

definition line_quantity :: "int32 \<Rightarrow> 'm TransactionItem list \<Rightarrow> int32" where
  "line_quantity k items = sum_list (map i_Quantity (filter (\<lambda>item. i_ProductId item = k) items))"

definition line_quantity_int :: "int32 \<Rightarrow> 'm TransactionItem list \<Rightarrow> int" where
  "line_quantity_int k items =
     sum_list (map (\<lambda>item. sint (i_Quantity item)) (filter (\<lambda>item. i_ProductId item = k) items))"

section \<open>Reading transaction numbers\<close>

text \<open>
  Not part of the program, but needed to speak about its numbers: \<open>fixed_width w n\<close> is
  \<open>n\<close> written with exactly \<open>w\<close> decimal digits, and \<open>decimal_value\<close> reads a string
  of decimal digits as a number.
\<close>

fun fixed_width :: "nat \<Rightarrow> nat \<Rightarrow> string" where
  "fixed_width 0 n = []"
| "fixed_width (Suc w) n = fixed_width w (n div 10) @ [digit (n mod 10)]"

definition digit_value :: "char \<Rightarrow> nat" where
  "digit_value c = of_char c - 48"

definition decimal_value :: "string \<Rightarrow> nat" where
  "decimal_value s = foldl (\<lambda>a c. 10 * a + digit_value c) 0 s"

section \<open>Transactions created one after the other\<close>

text \<open>
  A request to \<^verbatim>\<open>POST /api/transactions\<close> comes with the clock and the keys of its
  run. \<open>post_transactions\<close> handles a list of requests in order, each on the database
  the previous one left.
\<close>

type_synonym 'm request = "(nat \<Rightarrow> DateTime) \<times> int32 \<times> (nat \<Rightarrow> int32) \<times> 'm Transaction"

fun post_transactions :: "'m AppDbContext \<Rightarrow> 'm request list \<Rightarrow> 'm AppDbContext" where
  "post_transactions db [] = db"
| "post_transactions db ((clk, newId, itemIds, txn) # rs) =
     post_transactions (snd (post_transaction db clk newId itemIds txn)) rs"

section \<open>The product forms of the client\<close>

text \<open>
  \<open>handleSubmit\<close> of \<open>AddProductScreen\<close> (\<^verbatim>\<open>src/unnamed/part_000\<close>): the
  validation of the form and the request body it sends to \<^verbatim>\<open>POST /api/products\<close>.
  \<open>Inl\<close> is the validation alert, after which nothing is sent. The JavaScript built-ins \<open>Number\<close>, \<open>isNaN\<close> and \<open>String.trim\<close> are
  parameters; numbers that are not NaN are linearly ordered.
\<close>

record FormData =
  f_name :: string
  f_description :: string
  f_price :: string
  f_stock :: string
  f_category :: string
  f_image :: string

record 'n ProductData =
  a_name :: string
  a_description :: string
  a_price :: 'n
  a_stock :: 'n
  a_category :: string
  a_image :: "string option"

definition AddProductScreen_handleSubmit ::
  "(string \<Rightarrow> 'n::{zero,linorder}) \<Rightarrow> ('n \<Rightarrow> bool) \<Rightarrow> (string \<Rightarrow> string) \<Rightarrow> FormData
     \<Rightarrow> string + 'n ProductData" where
  "AddProductScreen_handleSubmit Number isNaN trim formData =
     (if trim (f_name formData) = [] then Inl ''Product name is required''
      else if f_price formData = [] \<or> isNaN (Number (f_price formData))
              \<or> Number (f_price formData) \<le> 0
        then Inl ''Please enter a valid price''
      else if f_stock formData = [] \<or> isNaN (Number (f_stock formData))
              \<or> Number (f_stock formData) < 0
        then Inl ''Please enter a valid stock quantity''
      else Inr
        \<lparr>a_name = trim (f_name formData),
         a_description = trim (f_description formData),
         a_price = Number (f_price formData),
         a_stock = Number (f_stock formData),
         a_category = (if f_category formData = [] then ''General'' else f_category formData),
         a_image = (if f_image formData = [] then None else Some (f_image formData))\<rparr>)"

text \<open>
  \<open>handleSubmit\<close> of \<open>EditProductScreen\<close> (\<^verbatim>\<open>src/frontend/app/edit-product.tsx\<close>):
  the same validation, then the body of the \<^verbatim>\<open>PUT\<close> request, which has a key only
  for a field whose form value differs from the product the screen loaded. \<open>None\<close> is
  a key that is not set. For the image, \<open>Some None\<close> is the key set to \<open>undefined\<close>,
  which \<open>JSON.stringify\<close> leaves out of the body. With no key set nothing is sent.
  The body never has a key for the active flag.
\<close>

record 'n EditProduct =
  e_id :: string
  e_name :: string
  e_description :: string
  e_price :: 'n
  e_stock :: 'n
  e_category :: string
  e_image :: "string option"
  e_is_active :: bool

record 'n UpdateData =
  u_name :: "string option"
  u_description :: "string option"
  u_price :: "'n option"
  u_stock :: "'n option"
  u_category :: "string option"
  u_image :: "string option option"

definition EditProductScreen_handleSubmit ::
  "(string \<Rightarrow> 'n::{zero,linorder}) \<Rightarrow> ('n \<Rightarrow> bool) \<Rightarrow> (string \<Rightarrow> string)
     \<Rightarrow> 'n EditProduct \<Rightarrow> FormData \<Rightarrow> string + 'n UpdateData" where
  "EditProductScreen_handleSubmit Number isNaN trim product formData =
     (if trim (f_name formData) = [] then Inl ''Product name is required''
      else if f_price formData = [] \<or> isNaN (Number (f_price formData))
              \<or> Number (f_price formData) \<le> 0
        then Inl ''Please enter a valid price''
      else if f_stock formData = [] \<or> isNaN (Number (f_stock formData))
              \<or> Number (f_stock formData) < 0
        then Inl ''Please enter a valid stock quantity''
      else
        (let updateData =
           \<lparr>u_name = (if trim (f_name formData) \<noteq> e_name product
                       then Some (trim (f_name formData)) else None),
            u_description = (if trim (f_description formData) \<noteq> e_description product
                       then Some (trim (f_description formData)) else None),
            u_price = (if Number (f_price formData) \<noteq> e_price product
                       then Some (Number (f_price formData)) else None),
            u_stock = (if Number (f_stock formData) \<noteq> e_stock product
                       then Some (Number (f_stock formData)) else None),
            u_category = (if f_category formData \<noteq> e_category product
                       then Some (f_category formData) else None),
            u_image = (if Some (f_image formData) \<noteq> e_image product
                       then Some (if f_image formData = [] then None else Some (f_image formData))
                       else None)\<rparr>
         in if updateData = \<lparr>u_name = None, u_description = None, u_price = None, u_stock = None,
                               u_category = None, u_image = None\<rparr>
            then Inl ''No changes were made to the product''
            else Inr updateData))"

section \<open>Example data\<close>

text \<open>
  A small shop used to run the handlers on concrete inputs: amounts are reals here, the
  clock ticks once per reading.
\<close>

definition example_tea :: "real Product" where
  "example_tea =
     \<lparr>p_Id = 1, p_Name = Some ''Tea'', p_Description = Some ''Green tea'', p_Price = 999 / 100,
      p_Stock = 5, p_Category = Some ''Drinks'', p_Image = None, p_IsActive = True,
      p_CreatedAt = 1000, p_UpdatedAt = 1000\<rparr>"

definition example_db :: "real AppDbContext" where
  "example_db = \<lparr>Products = [example_tea], Transactions = []\<rparr>"

definition example_clock :: "nat \<Rightarrow> DateTime" where
  "example_clock n = 5000 + int n"

definition example_clock2 :: "nat \<Rightarrow> DateTime" where
  "example_clock2 n = 7000 + int n"

definition example_item_ids :: "nat \<Rightarrow> int32" where
  "example_item_ids k = 100 + word_of_nat k"

definition example_line :: "real TransactionItem" where
  "example_line =
     \<lparr>i_Id = 0, i_TransactionId = 0, i_ProductId = 1, i_ProductName = ''Tea'',
      i_Price = 999 / 100, i_Quantity = 2, i_Total = 1998 / 100\<rparr>"

definition example_sale :: "real Transaction" where
  "example_sale =
     \<lparr>t_Id = 0, t_TransactionNumber = [], t_CreatedAt = 0, t_Status = ''completed'',
      t_Subtotal = 1998 / 100, t_Tax = 0, t_Discount = 0, t_Total = 1998 / 100,
      t_PaymentMethod = ''cash'', t_CustomerName = None, t_Notes = None,
      t_Items = [example_line]\<rparr>"

definition example_sale_missing :: "real Transaction" where
  "example_sale_missing =
     example_sale\<lparr>t_Items := [example_line\<lparr>i_ProductId := 7, i_Quantity := 1\<rparr>]\<rparr>"

definition example_sale_negative :: "real Transaction" where
  "example_sale_negative =
     example_sale\<lparr>t_Items := [example_line\<lparr>i_Quantity := - 3\<rparr>]\<rparr>"

definition example_sale_empty :: "real Transaction" where
  "example_sale_empty = example_sale\<lparr>t_Items := []\<rparr>"

definition example_sale_tampered :: "real Transaction" where
  "example_sale_tampered =
     example_sale\<lparr>t_Subtotal := 500, t_Total := 500,
       t_Items := [example_line\<lparr>i_Price := 1, i_Total := 1\<rparr>]\<rparr>"

definition example_sale_unbalanced :: "real Transaction" where
  "example_sale_unbalanced = example_sale\<lparr>t_Subtotal := 10, t_Total := 99\<rparr>"

definition example_cart :: "real CartItem list" where
  "example_cart =
     [\<lparr>ci_product = \<lparr>c_id = ''1'', c_name = ''Tea'', c_price = 999 / 100, c_stock = 5,
                   c_category = ''Drinks'', c_image = None\<rparr>,
       ci_quantity = 2\<rparr>]"

definition example_db_full :: "real AppDbContext" where
  "example_db_full = \<lparr>Products = [example_tea], Transactions = replicate 999998 example_sale\<rparr>"

definition example_requests :: "real request list" where
  "example_requests =
     [(example_clock, 10, example_item_ids, example_sale),
      (example_clock2, 11, example_item_ids, example_sale)]"

definition example_sale_yesterday :: "real Transaction" where
  "example_sale_yesterday = example_sale\<lparr>t_CreatedAt := 864000000000 * 3 - 1, t_Total := 7\<rparr>"

definition example_sale_today :: "real Transaction" where
  "example_sale_today = example_sale\<lparr>t_CreatedAt := 864000000000 * 3 + 5, t_Total := 20\<rparr>"

definition example_db_sales :: "real AppDbContext" where
  "example_db_sales =
     \<lparr>Products = [example_tea], Transactions = [example_sale_yesterday, example_sale_today]\<rparr>"

definition example_clock_noon :: "nat \<Rightarrow> DateTime" where
  "example_clock_noon n = 864000000000 * 3 + 432000000000 + int n"

definition example_body_bad :: "real ProductBody" where
  "example_body_bad =
     \<lparr>b_id = None, b_name = Some (Some []), b_description = None, b_price = Some (- 1),
      b_stock = Some (- 5), b_category = None, b_image = None, b_isActive = None\<rparr>"

definition example_body_negative_price :: "real ProductBody" where
  "example_body_negative_price =
     \<lparr>b_id = None, b_name = None, b_description = None, b_price = Some (- 2),
      b_stock = None, b_category = None, b_image = None, b_isActive = None\<rparr>"

definition example_body_negative_stock :: "real ProductBody" where
  "example_body_negative_stock =
     \<lparr>b_id = None, b_name = None, b_description = None, b_price = None,
      b_stock = Some (- 7), b_category = None, b_image = None, b_isActive = None\<rparr>"

definition example_body_price :: "real ProductBody" where
  "example_body_price =
     \<lparr>b_id = None, b_name = None, b_description = None, b_price = Some 4,
      b_stock = None, b_category = None, b_image = None, b_isActive = None\<rparr>"

definition example_db_deactivated :: "real AppDbContext" where
  "example_db_deactivated = snd (delete_product example_db example_clock 1)"

definition example_form :: FormData where
  "example_form =
     \<lparr>f_name = ''Tea'', f_description = ''Green tea'', f_price = ''9.99'', f_stock = ''5'',
      f_category = [], f_image = []\<rparr>"

definition example_Number :: "string \<Rightarrow> real" where
  "example_Number s =
     (if s = ''9.99'' then 999 / 100 else if s = ''5'' then 5 else if s = ''4'' then 4 else 0)"

definition example_coffee :: "real Product" where
  "example_coffee =
     \<lparr>p_Id = 2, p_Name = Some ''Coffee'', p_Description = Some ''Ground coffee'', p_Price = 12,
      p_Stock = 40, p_Category = Some ''Drinks'', p_Image = None, p_IsActive = True,
      p_CreatedAt = 2000, p_UpdatedAt = 2000\<rparr>"

definition example_db_two :: "real AppDbContext" where
  "example_db_two = \<lparr>Products = [example_tea, example_coffee], Transactions = []\<rparr>"

definition example_edit_product :: "real EditProduct" where
  "example_edit_product =
     \<lparr>e_id = ''1'', e_name = ''Tea'', e_description = ''Green tea'', e_price = 999 / 100,
      e_stock = 5, e_category = ''Drinks'', e_image = None, e_is_active = False\<rparr>"

definition example_edit_form :: FormData where
  "example_edit_form =
     \<lparr>f_name = ''Tea'', f_description = ''Green tea'', f_price = ''4'', f_stock = ''5'',
      f_category = ''Drinks'', f_image = []\<rparr>"

section \<open>Facts about the persistence layer\<close>

lemma FindAsync_Nil [simp]: "FindAsync [] k = None"
  by (simp add: FindAsync_def)

lemma FindAsync_Cons [simp]:
  "FindAsync (p # ps) k = (if p_Id p = k then Some p else FindAsync ps k)"
  by (simp add: FindAsync_def)

lemma FindAsync_None_iff: "FindAsync ps k = None \<longleftrightarrow> (\<forall>p\<in>set ps. p_Id p \<noteq> k)"
  by (induction ps) auto

lemma FindAsync_Some_D: "FindAsync ps k = Some p \<Longrightarrow> p \<in> set ps \<and> p_Id p = k"
  by (induction ps) (auto split: if_splits)

lemma length_update_entity [simp]: "length (update_entity k f ps) = length ps"
  by (induction ps) auto

text \<open>A handler never assigns the key of a row, so a row is found under its old key.\<close>

lemma FindAsync_update_entity:
  assumes "\<And>p. p_Id (f p) = p_Id p"
  shows "FindAsync (update_entity k f ps) j =
           (if j = k then map_option f (FindAsync ps k) else FindAsync ps j)"
  using assms by (induction ps) auto

lemma map_Id_update_entity:
  assumes "\<And>p. p_Id (f p) = p_Id p"
  shows "map p_Id (update_entity k f ps) = map p_Id ps"
  using assms by (induction ps) auto

text \<open>With keys that are unique, as a primary key is, the assignment reaches every row of that key.\<close>

lemma update_entity_distinct:
  assumes "distinct (map p_Id ps)"
  shows "update_entity k f ps = map (\<lambda>p. if p_Id p = k then f p else p) ps"
  using assms
proof (induction ps)
  case Nil
  then show ?case by simp
next
  case (Cons p ps)
  have "p_Id p = k \<Longrightarrow> map (\<lambda>q. if p_Id q = k then f q else q) ps = ps"
    using Cons.prems by (intro map_idI) (auto simp: image_iff)
  with Cons show ?case by auto
qed

section \<open>Deactivating a product\<close>

text \<open>
  Claim C8. \<^verbatim>\<open>DELETE /api/products/{id}\<close> answers NotFound and changes nothing when no
  product has the id. Otherwise it answers Ok, the product is stored with its active flag
  false and its update time set to the clock reading, every other product and the
  transactions are as before, and a second call with the same id answers Ok again and
  leaves the active flag false.
\<close>

theorem delete_product_deactivates:
  "(FindAsync (Products db) k = None \<longrightarrow> delete_product db clk k = (NotFound, db)) \<and>
   (\<forall>p. FindAsync (Products db) k = Some p \<longrightarrow>
      fst (delete_product db clk k) = Ok ''Product deleted successfully'' \<and>
      FindAsync (Products (snd (delete_product db clk k))) k
        = Some (p\<lparr>p_IsActive := False, p_UpdatedAt := clk 0\<rparr>) \<and>
      (\<forall>j. j \<noteq> k \<longrightarrow>
         FindAsync (Products (snd (delete_product db clk k))) j = FindAsync (Products db) j) \<and>
      Transactions (snd (delete_product db clk k)) = Transactions db \<and>
      fst (delete_product (snd (delete_product db clk k)) clk' k) = Ok ''Product deleted successfully'' \<and>
      FindAsync (Products (snd (delete_product (snd (delete_product db clk k)) clk' k))) k
        = Some (p\<lparr>p_IsActive := False, p_UpdatedAt := clk' 0\<rparr>))"
  by (simp add: delete_product_def FindAsync_update_entity)

theorem delete_product_deactivates_witness:
  "FindAsync (Products example_db) 2 = None \<and>
   delete_product example_db example_clock 2 = (NotFound, example_db) \<and>
   FindAsync (Products example_db) 1 = Some example_tea \<and>
   fst (delete_product example_db example_clock 1) = Ok ''Product deleted successfully'' \<and>
   FindAsync (Products (snd (delete_product example_db example_clock 1))) 1
     = Some (example_tea\<lparr>p_IsActive := False, p_UpdatedAt := 5000\<rparr>) \<and>
   fst (delete_product (snd (delete_product example_db example_clock 1)) example_clock2 1)
     = Ok ''Product deleted successfully'' \<and>
   FindAsync (Products (snd (delete_product (snd (delete_product example_db example_clock 1))
       example_clock2 1))) 1
     = Some (example_tea\<lparr>p_IsActive := False, p_UpdatedAt := 7000\<rparr>)"
proof -
  have none: "FindAsync (Products example_db) 2 = None"
    by (simp add: example_db_def example_tea_def)
  have some: "FindAsync (Products example_db) 1 = Some example_tea"
    by (simp add: example_db_def example_tea_def)
  from delete_product_deactivates [of example_db 2 example_clock example_clock2] none
  have a: "delete_product example_db example_clock 2 = (NotFound, example_db)"
    by blast
  from delete_product_deactivates [of example_db 1 example_clock example_clock2] some
  show ?thesis
    using none a by (simp add: example_clock_def example_clock2_def)
qed

section \<open>Looking a product up\<close>

text \<open>
  Claim C10. \<^verbatim>\<open>GET /api/products/{id}\<close> answers NotFound exactly when no stored
  product has the id; the active flag plays no part. After a product has been
  deactivated the lookup by id still returns it (with the flag false), while the record
  is not in the list of active products; with unique keys no entry of that list has the id.
\<close>

theorem get_product_NotFound_iff:
  "(get_product db k = NotFound \<longleftrightarrow> (\<forall>p\<in>set (Products db). p_Id p \<noteq> k)) \<and>
   (\<forall>p. FindAsync (Products db) k = Some p \<longrightarrow>
      get_product db k = Ok p \<and>
      get_product (snd (delete_product db clk k)) k
        = Ok (p\<lparr>p_IsActive := False, p_UpdatedAt := clk 0\<rparr>) \<and>
      p\<lparr>p_IsActive := False, p_UpdatedAt := clk 0\<rparr> \<notin> set (get_products (snd (delete_product db clk k))) \<and>
      (distinct (map p_Id (Products db)) \<longrightarrow>
         (\<forall>q\<in>set (get_products (snd (delete_product db clk k))). p_Id q \<noteq> k)))"
proof -
  have iff: "get_product db k = NotFound \<longleftrightarrow> (\<forall>p\<in>set (Products db). p_Id p \<noteq> k)"
    by (simp add: get_product_def FindAsync_None_iff [symmetric] split: option.splits)
  have rest: "get_product db k = Ok p \<and>
      get_product (snd (delete_product db clk k)) k
        = Ok (p\<lparr>p_IsActive := False, p_UpdatedAt := clk 0\<rparr>) \<and>
      p\<lparr>p_IsActive := False, p_UpdatedAt := clk 0\<rparr> \<notin> set (get_products (snd (delete_product db clk k))) \<and>
      (distinct (map p_Id (Products db)) \<longrightarrow>
         (\<forall>q\<in>set (get_products (snd (delete_product db clk k))). p_Id q \<noteq> k))"
    if found: "FindAsync (Products db) k = Some p" for p
  proof -
    let ?f = "\<lambda>p::'a Product. p\<lparr>p_IsActive := False, p_UpdatedAt := clk 0\<rparr>"
    have db': "Products (snd (delete_product db clk k)) = update_entity k ?f (Products db)"
      using found by (simp add: delete_product_def)
    have 1: "get_product db k = Ok p"
      using found by (simp add: get_product_def)
    have 2: "get_product (snd (delete_product db clk k)) k = Ok (?f p)"
      using found by (simp add: get_product_def db' FindAsync_update_entity)
    have 3: "?f p \<notin> set (get_products (snd (delete_product db clk k)))"
      by (simp add: get_products_def)
    have 4: "\<forall>q\<in>set (get_products (snd (delete_product db clk k))). p_Id q \<noteq> k"
      if "distinct (map p_Id (Products db))"
    proof -
      have "Products (snd (delete_product db clk k))
              = map (\<lambda>q. if p_Id q = k then ?f q else q) (Products db)"
        unfolding db' using that by (rule update_entity_distinct)
      then have eq: "get_products (snd (delete_product db clk k))
              = filter p_IsActive (map (\<lambda>q. if p_Id q = k then ?f q else q) (Products db))"
        by (simp only: get_products_def)
      show ?thesis
        unfolding eq
      proof
        fix q
        assume "q \<in> set (filter p_IsActive (map (\<lambda>q. if p_Id q = k then ?f q else q) (Products db)))"
        then obtain r where r: "r \<in> set (Products db)" "q = (if p_Id r = k then ?f r else r)"
          and act: "p_IsActive q"
          by auto
        show "p_Id q \<noteq> k"
        proof (cases "p_Id r = k")
          case True
          with r have "\<not> p_IsActive q" by simp
          with act show ?thesis by simp
        next
          case False
          with r show ?thesis by simp
        qed
      qed
    qed
    from 1 2 3 4 show ?thesis by blast
  qed
  from iff rest show ?thesis by blast
qed

theorem get_product_NotFound_iff_witness:
  "FindAsync (Products example_db) 1 = Some example_tea \<and>
   distinct (map p_Id (Products example_db)) \<and>
   get_product example_db 2 = NotFound \<and>
   get_product example_db 1 = Ok example_tea \<and>
   get_product (snd (delete_product example_db example_clock 1)) 1
     = Ok (example_tea\<lparr>p_IsActive := False, p_UpdatedAt := 5000\<rparr>) \<and>
   get_products (snd (delete_product example_db example_clock 1)) = []"
proof -
  have some: "FindAsync (Products example_db) 1 = Some example_tea"
    by (simp add: example_db_def example_tea_def)
  have dist: "distinct (map p_Id (Products example_db))"
    by (simp add: example_db_def)
  have none: "\<forall>p\<in>set (Products example_db). p_Id p \<noteq> 2"
    by (simp add: example_db_def example_tea_def)
  from get_product_NotFound_iff [of example_db 2 example_clock] none
  have a: "get_product example_db 2 = NotFound"
    by blast
  have b: "get_products (snd (delete_product example_db example_clock 1)) = []"
    by (simp add: get_products_def delete_product_def example_db_def example_tea_def)
  from get_product_NotFound_iff [of example_db 1 example_clock] some dist
  show ?thesis
    using a b by (simp add: example_clock_def)
qed

section \<open>Facts about the transaction loop\<close>

lemmas example_defs =
  example_db_def example_tea_def example_clock_def example_item_ids_def example_line_def
  example_sale_def

lemma line_quantity_Nil [simp]: "line_quantity k [] = 0"
  by (simp add: line_quantity_def)

lemma line_quantity_Cons [simp]:
  "line_quantity k (item # items) =
     (if i_ProductId item = k then i_Quantity item + line_quantity k items else line_quantity k items)"
  by (simp add: line_quantity_def)

lemma line_quantity_int_Nil [simp]: "line_quantity_int k [] = 0"
  by (simp add: line_quantity_int_def)

lemma line_quantity_int_Cons [simp]:
  "line_quantity_int k (item # items) =
     (if i_ProductId item = k then sint (i_Quantity item) + line_quantity_int k items
      else line_quantity_int k items)"
  by (simp add: line_quantity_int_def)

lemma line_quantity_unreferenced:
  "k \<notin> i_ProductId ` set items \<Longrightarrow> line_quantity k items = 0"
  by (induction items) auto

lemma word_of_int_line_quantity_int:
  "word_of_int (line_quantity_int k items) = line_quantity k items"
  by (induction items) (auto simp: wi_hom_syms)

lemma sint_minus_line_quantity:
  fixes a :: int32
  assumes "- (2 ^ 31) \<le> sint a - line_quantity_int k items"
    and "sint a - line_quantity_int k items < 2 ^ 31"
  shows "sint (a - line_quantity k items) = sint a - line_quantity_int k items"
proof -
  have "a - line_quantity k items = word_of_int (sint a - line_quantity_int k items)"
    by (simp add: word_of_int_line_quantity_int wi_hom_syms)
  then have "sint (a - line_quantity k items)
      = signed_take_bit (LENGTH(32) - 1) (sint a - line_quantity_int k items)"
    by (simp only: sint_sbintrunc')
  also have "\<dots> = sint a - line_quantity_int k items"
    using assms by (intro signed_take_bit_int_eq_self) simp_all
  finally show ?thesis .
qed

lemma foreach_item_None:
  "FindAsync ps k = None \<Longrightarrow> FindAsync (foreach_item clk n ps items) k = None"
proof (induction items arbitrary: n ps)
  case Nil
  then show ?case by simp
next
  case (Cons item items)
  show ?case
  proof (cases "FindAsync ps (i_ProductId item)")
    case None
    with Cons show ?thesis by simp
  next
    case (Some product)
    let ?f = "\<lambda>p::'a Product. p\<lparr>p_Stock := p_Stock p - i_Quantity item, p_UpdatedAt := clk n\<rparr>"
    have "FindAsync (update_entity (i_ProductId item) ?f ps) k = None"
      using Cons.prems Some by (auto simp: FindAsync_update_entity)
    then have "FindAsync (foreach_item clk (Suc n) (update_entity (i_ProductId item) ?f ps) items) k = None"
      by (rule Cons.IH)
    with Some show ?thesis by simp
  qed
qed

lemma foreach_item_Some:
  assumes "FindAsync ps k = Some p"
  shows "\<exists>u. FindAsync (foreach_item clk n ps items) k
             = Some (p\<lparr>p_Stock := p_Stock p - line_quantity k items, p_UpdatedAt := u\<rparr>) \<and>
           (if k \<in> i_ProductId ` set items then \<exists>j. n \<le> j \<and> j < n + length items \<and> u = clk j
            else u = p_UpdatedAt p)"
  using assms
proof (induction items arbitrary: n ps p)
  case Nil
  then show ?case by simp
next
  case (Cons item items)
  show ?case
  proof (cases "FindAsync ps (i_ProductId item)")
    case None
    then have ne: "i_ProductId item \<noteq> k"
      using Cons.prems by auto
    have step: "foreach_item clk n ps (item # items) = foreach_item clk n ps items"
      using None by simp
    from Cons.IH [OF Cons.prems, of n] obtain u where
      u: "FindAsync (foreach_item clk n ps items) k
             = Some (p\<lparr>p_Stock := p_Stock p - line_quantity k items, p_UpdatedAt := u\<rparr>)"
        "if k \<in> i_ProductId ` set items then \<exists>j. n \<le> j \<and> j < n + length items \<and> u = clk j
            else u = p_UpdatedAt p"
      by blast
    have lq: "line_quantity k (item # items) = line_quantity k items"
      using ne by simp
    have "if k \<in> i_ProductId ` set (item # items)
          then \<exists>j. n \<le> j \<and> j < n + length (item # items) \<and> u = clk j
          else u = p_UpdatedAt p"
      using u(2) ne by (auto split: if_splits intro: less_SucI)
    with u(1) show ?thesis
      unfolding step lq by blast
  next
    case (Some product)
    let ?f = "\<lambda>p::'a Product. p\<lparr>p_Stock := p_Stock p - i_Quantity item, p_UpdatedAt := clk n\<rparr>"
    let ?ps = "update_entity (i_ProductId item) ?f ps"
    have step: "foreach_item clk n ps (item # items) = foreach_item clk (Suc n) ?ps items"
      using Some by simp
    show ?thesis
    proof (cases "i_ProductId item = k")
      case True
      have "FindAsync ?ps k = Some (?f p)"
        using Cons.prems True by (simp add: FindAsync_update_entity)
      from Cons.IH [OF this, of "Suc n"] obtain u where
        u: "FindAsync (foreach_item clk (Suc n) ?ps items) k
             = Some ((?f p)\<lparr>p_Stock := p_Stock (?f p) - line_quantity k items, p_UpdatedAt := u\<rparr>)"
          "if k \<in> i_ProductId ` set items
           then \<exists>j. Suc n \<le> j \<and> j < Suc n + length items \<and> u = clk j
           else u = p_UpdatedAt (?f p)"
        by blast
      have stock: "(?f p)\<lparr>p_Stock := p_Stock (?f p) - line_quantity k items, p_UpdatedAt := u\<rparr>
            = p\<lparr>p_Stock := p_Stock p - line_quantity k (item # items), p_UpdatedAt := u\<rparr>"
        using True by (simp add: algebra_simps)
      have found: "FindAsync (foreach_item clk (Suc n) ?ps items) k
             = Some (p\<lparr>p_Stock := p_Stock p - line_quantity k (item # items), p_UpdatedAt := u\<rparr>)"
        using u(1) unfolding stock .
      have time: "\<exists>j. n \<le> j \<and> j < n + length (item # items) \<and> u = clk j"
      proof (cases "k \<in> i_ProductId ` set items")
        case True
        with u(2) obtain j where "Suc n \<le> j" "j < Suc n + length items" "u = clk j"
          by auto
        then have "n \<le> j \<and> j < n + length (item # items) \<and> u = clk j"
          by simp
        then show ?thesis ..
      next
        case False
        with u(2) have "u = clk n" by simp
        then have "n \<le> n \<and> n < n + length (item # items) \<and> u = clk n"
          by simp
        then show ?thesis ..
      qed
      have mem: "k \<in> i_ProductId ` set (item # items)"
        using True by auto
      have "if k \<in> i_ProductId ` set (item # items)
          then \<exists>j. n \<le> j \<and> j < n + length (item # items) \<and> u = clk j
          else u = p_UpdatedAt p"
        using mem time by (simp only: if_True)
      with found show ?thesis
        unfolding step by blast
    next
      case False
      have "FindAsync ?ps k = Some p"
        using Cons.prems False by (simp add: FindAsync_update_entity)
      from Cons.IH [OF this, of "Suc n"] obtain u where
        u: "FindAsync (foreach_item clk (Suc n) ?ps items) k
             = Some (p\<lparr>p_Stock := p_Stock p - line_quantity k items, p_UpdatedAt := u\<rparr>)"
          "if k \<in> i_ProductId ` set items
           then \<exists>j. Suc n \<le> j \<and> j < Suc n + length items \<and> u = clk j
           else u = p_UpdatedAt p"
        by blast
      have lq: "line_quantity k (item # items) = line_quantity k items"
        using False by simp
      have "if k \<in> i_ProductId ` set (item # items)
          then \<exists>j. n \<le> j \<and> j < n + length (item # items) \<and> u = clk j
          else u = p_UpdatedAt p"
      proof (cases "k \<in> i_ProductId ` set items")
        case True
        with u(2) obtain j where "Suc n \<le> j" "j < Suc n + length items" "u = clk j"
          by auto
        then have "n \<le> j \<and> j < n + length (item # items) \<and> u = clk j"
          by simp
        then have "\<exists>j. n \<le> j \<and> j < n + length (item # items) \<and> u = clk j" ..
        with True show ?thesis by simp
      next
        case no: False
        with u(2) False show ?thesis by auto
      qed
      with u(1) show ?thesis
        unfolding step lq by blast
    qed
  qed
qed

lemma post_transaction_eq:
  "post_transaction db clk newId itemIds txn =
     (Created (''/api/transactions/'' @ Int32_ToString newId)
        (Add_Transaction newId itemIds
           (txn\<lparr>t_TransactionNumber := TransactionNumber (CountAsync (Transactions db)),
                t_CreatedAt := clk 0, t_Status := ''completed''\<rparr>)),
      db\<lparr>Products := foreach_item clk 1 (Products db) (t_Items txn),
         Transactions := Transactions db @
           [Add_Transaction newId itemIds
              (txn\<lparr>t_TransactionNumber := TransactionNumber (CountAsync (Transactions db)),
                   t_CreatedAt := clk 0, t_Status := ''completed''\<rparr>)]\<rparr>)"
  by (simp add: post_transaction_def Let_def Add_Transaction_def)

lemma length_Items_Add_Transaction [simp]:
  "length (t_Items (Add_Transaction newId itemIds t)) = length (t_Items t)"
  by (simp add: Add_Transaction_def)

lemma nth_Items_Add_Transaction:
  "j < length (t_Items t) \<Longrightarrow>
   t_Items (Add_Transaction newId itemIds t) ! j
     = (t_Items t ! j)\<lparr>i_Id := itemIds j, i_TransactionId := newId\<rparr>"
  by (simp add: Add_Transaction_def nth_enumerate_eq)

lemma Add_Transaction_fields [simp]:
  "t_Id (Add_Transaction newId itemIds t) = newId"
  "t_TransactionNumber (Add_Transaction newId itemIds t) = t_TransactionNumber t"
  "t_CreatedAt (Add_Transaction newId itemIds t) = t_CreatedAt t"
  "t_Status (Add_Transaction newId itemIds t) = t_Status t"
  "t_Subtotal (Add_Transaction newId itemIds t) = t_Subtotal t"
  "t_Tax (Add_Transaction newId itemIds t) = t_Tax t"
  "t_Discount (Add_Transaction newId itemIds t) = t_Discount t"
  "t_Total (Add_Transaction newId itemIds t) = t_Total t"
  "t_PaymentMethod (Add_Transaction newId itemIds t) = t_PaymentMethod t"
  "t_CustomerName (Add_Transaction newId itemIds t) = t_CustomerName t"
  "t_Notes (Add_Transaction newId itemIds t) = t_Notes t"
  by (simp_all add: Add_Transaction_def)

lemma foreach_item_all_missing:
  "\<forall>item\<in>set items. FindAsync ps (i_ProductId item) = None \<Longrightarrow> foreach_item clk n ps items = ps"
  by (induction items) auto

section \<open>Creating a transaction: stock and persistence\<close>

text \<open>
  Claim C1. \<^verbatim>\<open>POST /api/transactions\<close> always answers Created. The transaction is
  appended to the stored transactions with all its items, item \<open>j\<close> as sent but for the
  two keys the database sets. Every product of the store is afterwards found under its
  key with its stock lowered by the quantities of the lines that name it, added up
  (32-bit arithmetic; as integers too whenever the result fits 32 bits), and, if a line
  names it, with its update time set to a clock reading of the request; a product no
  line names is unchanged. With a single line of quantity 2 for a product of stock 5 the
  stock is 3 afterwards.
\<close>

theorem post_transaction_decrements_stock:
  fixes db :: "'m AppDbContext" and clk newId itemIds txn
  defines "db' \<equiv> snd (post_transaction db clk newId itemIds txn)"
  shows
  "\<exists>stored.
     fst (post_transaction db clk newId itemIds txn)
       = Created (''/api/transactions/'' @ Int32_ToString newId) stored \<and>
     Transactions db' = Transactions db @ [stored] \<and>
     length (t_Items stored) = length (t_Items txn) \<and>
     (\<forall>j<length (t_Items txn).
        t_Items stored ! j = (t_Items txn ! j)\<lparr>i_Id := itemIds j, i_TransactionId := newId\<rparr>) \<and>
     (\<forall>k p. FindAsync (Products db) k = Some p \<longrightarrow>
        (\<exists>u. FindAsync (Products db') k
                = Some (p\<lparr>p_Stock := p_Stock p - line_quantity k (t_Items txn), p_UpdatedAt := u\<rparr>) \<and>
             (k \<in> i_ProductId ` set (t_Items txn) \<longrightarrow> (\<exists>j\<ge>1. u = clk j)) \<and>
             (k \<notin> i_ProductId ` set (t_Items txn) \<longrightarrow>
                u = p_UpdatedAt p \<and> line_quantity k (t_Items txn) = 0)) \<and>
        (- (2 ^ 31) \<le> sint (p_Stock p) - line_quantity_int k (t_Items txn) \<and>
         sint (p_Stock p) - line_quantity_int k (t_Items txn) < 2 ^ 31 \<longrightarrow>
           sint (p_Stock p - line_quantity k (t_Items txn))
             = sint (p_Stock p) - line_quantity_int k (t_Items txn)) \<and>
        (\<forall>item. t_Items txn = [item] \<and> i_ProductId item = k \<and> i_Quantity item = 2 \<and> p_Stock p = 5 \<longrightarrow>
           (\<exists>p'. FindAsync (Products db') k = Some p' \<and> p_Stock p' = 3)))"
proof -
  let ?stored = "Add_Transaction newId itemIds
           (txn\<lparr>t_TransactionNumber := TransactionNumber (CountAsync (Transactions db)),
                t_CreatedAt := clk 0, t_Status := ''completed''\<rparr>)"
  have res: "fst (post_transaction db clk newId itemIds txn)
       = Created (''/api/transactions/'' @ Int32_ToString newId) ?stored"
    by (simp add: post_transaction_eq)
  have txns: "Transactions db' = Transactions db @ [?stored]"
    by (simp add: db'_def post_transaction_eq)
  have prods: "Products db' = foreach_item clk 1 (Products db) (t_Items txn)"
    by (simp add: db'_def post_transaction_eq)
  have len: "length (t_Items ?stored) = length (t_Items txn)"
    by simp
  have items: "\<forall>j<length (t_Items txn).
        t_Items ?stored ! j = (t_Items txn ! j)\<lparr>i_Id := itemIds j, i_TransactionId := newId\<rparr>"
    by (simp add: nth_Items_Add_Transaction)
  have stock: "(\<exists>u. FindAsync (Products db') k
                = Some (p\<lparr>p_Stock := p_Stock p - line_quantity k (t_Items txn), p_UpdatedAt := u\<rparr>) \<and>
             (k \<in> i_ProductId ` set (t_Items txn) \<longrightarrow> (\<exists>j\<ge>1. u = clk j)) \<and>
             (k \<notin> i_ProductId ` set (t_Items txn) \<longrightarrow>
                u = p_UpdatedAt p \<and> line_quantity k (t_Items txn) = 0)) \<and>
        (- (2 ^ 31) \<le> sint (p_Stock p) - line_quantity_int k (t_Items txn) \<and>
         sint (p_Stock p) - line_quantity_int k (t_Items txn) < 2 ^ 31 \<longrightarrow>
           sint (p_Stock p - line_quantity k (t_Items txn))
             = sint (p_Stock p) - line_quantity_int k (t_Items txn)) \<and>
        (\<forall>item. t_Items txn = [item] \<and> i_ProductId item = k \<and> i_Quantity item = 2 \<and> p_Stock p = 5 \<longrightarrow>
           (\<exists>p'. FindAsync (Products db') k = Some p' \<and> p_Stock p' = 3))"
    if found: "FindAsync (Products db) k = Some p" for k p
  proof -
    from foreach_item_Some [OF found, of clk 1 "t_Items txn"] obtain u where
      u: "FindAsync (Products db') k
            = Some (p\<lparr>p_Stock := p_Stock p - line_quantity k (t_Items txn), p_UpdatedAt := u\<rparr>)"
         "if k \<in> i_ProductId ` set (t_Items txn)
          then \<exists>j. 1 \<le> j \<and> j < 1 + length (t_Items txn) \<and> u = clk j
          else u = p_UpdatedAt p"
      unfolding prods by blast
    have a: "k \<in> i_ProductId ` set (t_Items txn) \<longrightarrow> (\<exists>j\<ge>1. u = clk j)"
      using u(2) by auto
    have b: "k \<notin> i_ProductId ` set (t_Items txn) \<longrightarrow>
                u = p_UpdatedAt p \<and> line_quantity k (t_Items txn) = 0"
      using u(2) by (auto simp: line_quantity_unreferenced)
    have c: "- (2 ^ 31) \<le> sint (p_Stock p) - line_quantity_int k (t_Items txn) \<and>
         sint (p_Stock p) - line_quantity_int k (t_Items txn) < 2 ^ 31 \<longrightarrow>
           sint (p_Stock p - line_quantity k (t_Items txn))
             = sint (p_Stock p) - line_quantity_int k (t_Items txn)"
      using sint_minus_line_quantity [of "p_Stock p" k "t_Items txn"] by blast
    have d: "\<exists>p'. FindAsync (Products db') k = Some p' \<and> p_Stock p' = 3"
      if "t_Items txn = [item] \<and> i_ProductId item = k \<and> i_Quantity item = 2 \<and> p_Stock p = 5" for item
      using u(1) that by simp
    from u(1) a b c d show ?thesis by blast
  qed
  from res txns len items stock show ?thesis by blast
qed

theorem post_transaction_decrements_stock_witness:
  "FindAsync (Products example_db_two) 1 = Some example_tea \<and>
   FindAsync (Products example_db_two) 2 = Some example_coffee \<and>
   t_Items example_sale = [example_line] \<and> i_ProductId example_line = 1 \<and>
   i_Quantity example_line = 2 \<and> p_Stock example_tea = 5 \<and>
   (\<exists>p'. FindAsync (Products (snd (post_transaction example_db_two example_clock 10 example_item_ids
             example_sale))) 1 = Some p' \<and> p_Stock p' = 3) \<and>
   FindAsync (Products (snd (post_transaction example_db_two example_clock 10 example_item_ids
             example_sale))) 1 = Some (example_tea\<lparr>p_Stock := 3, p_UpdatedAt := 5001\<rparr>) \<and>
   sint (p_Stock example_tea - line_quantity 1 (t_Items example_sale)) = 5 - 2 \<and>
   FindAsync (Products (snd (post_transaction example_db_two example_clock 10 example_item_ids
             example_sale))) 2 = Some example_coffee \<and>
   length (Transactions (snd (post_transaction example_db_two example_clock 10 example_item_ids
             example_sale))) = 1"
proof -
  let ?db' = "snd (post_transaction example_db_two example_clock 10 example_item_ids example_sale)"
  have tea: "FindAsync (Products example_db_two) 1 = Some example_tea"
    by (simp add: example_db_two_def example_tea_def)
  have coffee: "FindAsync (Products example_db_two) 2 = Some example_coffee"
    by (simp add: example_db_two_def example_tea_def example_coffee_def)
  have single: "t_Items example_sale = [example_line] \<and> i_ProductId example_line = 1 \<and>
      i_Quantity example_line = 2 \<and> p_Stock example_tea = 5"
    by (simp add: example_defs)
  have unref: "2 \<notin> i_ProductId ` set (t_Items example_sale)"
    by (simp add: example_defs)
  have range: "- (2 ^ 31) \<le> sint (p_Stock example_tea) - line_quantity_int 1 (t_Items example_sale) \<and>
      sint (p_Stock example_tea) - line_quantity_int 1 (t_Items example_sale) < 2 ^ 31"
    by (simp add: example_defs)
  have ints: "sint (p_Stock example_tea) - line_quantity_int 1 (t_Items example_sale) = 5 - 2"
    by (simp add: example_defs)
  note T = post_transaction_decrements_stock
    [of example_db_two example_clock 10 example_item_ids example_sale]
  from T tea single
  have stock: "\<exists>p'. FindAsync (Products ?db') 1 = Some p' \<and> p_Stock p' = 3"
    by blast
  from T tea range
  have "sint (p_Stock example_tea - line_quantity 1 (t_Items example_sale))
      = sint (p_Stock example_tea) - line_quantity_int 1 (t_Items example_sale)"
    by blast
  then have signed: "sint (p_Stock example_tea - line_quantity 1 (t_Items example_sale)) = 5 - 2"
    unfolding ints .
  from T coffee unref obtain u where
    "FindAsync (Products ?db') 2
       = Some (example_coffee\<lparr>p_Stock := p_Stock example_coffee - line_quantity 2 (t_Items example_sale),
            p_UpdatedAt := u\<rparr>)"
    "u = p_UpdatedAt example_coffee \<and> line_quantity 2 (t_Items example_sale) = 0"
    by blast
  then have same: "FindAsync (Products ?db') 2 = Some example_coffee"
    by simp
  from T obtain stored where "Transactions ?db' = Transactions example_db_two @ [stored]"
    by blast
  then have len: "length (Transactions ?db') = 1"
    by (simp add: example_db_two_def)
  have eval: "FindAsync (Products ?db') 1 = Some (example_tea\<lparr>p_Stock := 3, p_UpdatedAt := 5001\<rparr>)"
    by (simp add: post_transaction_eq example_defs example_db_two_def)
  from tea coffee single stock eval signed same len show ?thesis by blast
qed

section \<open>Creating a transaction: no validation\<close>

text \<open>
  Claim C2 as stated does not hold. A request whose only line names the absent product 7
  is answered Created and recorded; so is a request with the quantity \<open>-3\<close>, which
  raises the stock from 5 to 8; so is a request with no line at all.
\<close>

theorem post_transaction_rejects_counterexample:
  "FindAsync (Products example_db) 7 = None \<and>
   map i_ProductId (t_Items example_sale_missing) = [7] \<and>
   is_Created (fst (post_transaction example_db example_clock 10 example_item_ids example_sale_missing)) \<and>
   length (Transactions example_db) = 0 \<and>
   length (Transactions (snd (post_transaction example_db example_clock 10 example_item_ids
      example_sale_missing))) = 1 \<and>
   map (\<lambda>item. sint (i_Quantity item)) (t_Items example_sale_negative) = [- 3] \<and>
   is_Created (fst (post_transaction example_db example_clock 10 example_item_ids example_sale_negative)) \<and>
   length (Transactions (snd (post_transaction example_db example_clock 10 example_item_ids
      example_sale_negative))) = 1 \<and>
   map p_Stock (Products example_db) = [5] \<and>
   map p_Stock (Products (snd (post_transaction example_db example_clock 10 example_item_ids
      example_sale_negative))) = [8] \<and>
   t_Items example_sale_empty = [] \<and>
   is_Created (fst (post_transaction example_db example_clock 10 example_item_ids example_sale_empty)) \<and>
   length (Transactions (snd (post_transaction example_db example_clock 10 example_item_ids
      example_sale_empty))) = 1"
  by (simp add: post_transaction_eq example_defs example_sale_missing_def
      example_sale_negative_def example_sale_empty_def)

text \<open>
  Claim C2, amended. \<^verbatim>\<open>POST /api/transactions\<close> rejects nothing: every request is
  answered Created and its transaction is the last stored one. A line whose product id is
  not in the store is passed over: absent keys stay absent, and if no line names a stored
  product the products are unchanged. Quantities are subtracted whatever their sign. Only
  the cart screen of the client holds an empty order back: it sends no request for an
  empty cart.
\<close>

theorem post_transaction_accepts_every_request:
  fixes db :: "'m AppDbContext" and clk newId itemIds txn
  defines "db' \<equiv> snd (post_transaction db clk newId itemIds txn)"
  shows
  "is_Created (fst (post_transaction db clk newId itemIds txn)) \<and>
   length (Transactions db') = Suc (length (Transactions db)) \<and>
   last (Transactions db') = body (fst (post_transaction db clk newId itemIds txn)) \<and>
   (\<forall>k. FindAsync (Products db) k = None \<longrightarrow> FindAsync (Products db') k = None) \<and>
   ((\<forall>item\<in>set (t_Items txn). FindAsync (Products db) (i_ProductId item) = None) \<longrightarrow>
      Products db' = Products db) \<and>
   (\<forall>k p. FindAsync (Products db) k = Some p \<longrightarrow>
      (\<exists>p'. FindAsync (Products db') k = Some p' \<and>
            p_Stock p' = p_Stock p - line_quantity k (t_Items txn))) \<and>
   processTransaction ([] :: ('n::{zero,plus,times}) CartItem list) = None"
proof -
  have prods: "Products db' = foreach_item clk 1 (Products db) (t_Items txn)"
    by (simp add: db'_def post_transaction_eq)
  have a: "is_Created (fst (post_transaction db clk newId itemIds txn))"
    by (simp add: post_transaction_eq)
  have b: "length (Transactions db') = Suc (length (Transactions db))"
    by (simp add: db'_def post_transaction_eq)
  have c: "last (Transactions db') = body (fst (post_transaction db clk newId itemIds txn))"
    by (simp add: db'_def post_transaction_eq)
  have d: "\<forall>k. FindAsync (Products db) k = None \<longrightarrow> FindAsync (Products db') k = None"
    unfolding prods by (simp add: foreach_item_None)
  have e: "(\<forall>item\<in>set (t_Items txn). FindAsync (Products db) (i_ProductId item) = None) \<longrightarrow>
      Products db' = Products db"
    unfolding prods by (simp add: foreach_item_all_missing)
  have f: "\<exists>p'. FindAsync (Products db') k = Some p' \<and>
            p_Stock p' = p_Stock p - line_quantity k (t_Items txn)"
    if "FindAsync (Products db) k = Some p" for k p
  proof -
    from foreach_item_Some [OF that, of clk 1 "t_Items txn"] obtain u where
      "FindAsync (Products db') k
         = Some (p\<lparr>p_Stock := p_Stock p - line_quantity k (t_Items txn), p_UpdatedAt := u\<rparr>)"
      unfolding prods by blast
    then show ?thesis by simp
  qed
  have g: "processTransaction ([] :: 'n CartItem list) = None"
    by (simp add: processTransaction_def)
  from a b c d e f g show ?thesis by blast
qed

theorem post_transaction_accepts_every_request_witness:
  "FindAsync (Products example_db) 7 = None \<and>
   list_all (\<lambda>item. FindAsync (Products example_db) (i_ProductId item) = None)
     (t_Items example_sale_missing) \<and>
   is_Created (fst (post_transaction example_db example_clock 10 example_item_ids example_sale_missing)) \<and>
   Products (snd (post_transaction example_db example_clock 10 example_item_ids example_sale_missing))
     = Products example_db \<and>
   FindAsync (Products example_db) 1 = Some example_tea \<and>
   (\<exists>p'. FindAsync (Products (snd (post_transaction example_db example_clock 10 example_item_ids
       example_sale_negative))) 1 = Some p' \<and> p_Stock p' = 8)"
proof -
  have none: "FindAsync (Products example_db) 7 = None"
    by (simp add: example_defs)
  have all: "\<forall>item\<in>set (t_Items example_sale_missing).
      FindAsync (Products example_db) (i_ProductId item) = None"
    by (simp add: example_defs example_sale_missing_def)
  have found: "FindAsync (Products example_db) 1 = Some example_tea"
    by (simp add: example_defs)
  have lq: "p_Stock example_tea - line_quantity 1 (t_Items example_sale_negative) = 8"
    by (simp add: example_defs example_sale_negative_def)
  from post_transaction_accepts_every_request
    [of example_db example_clock 10 example_item_ids example_sale_missing] all
  have a: "is_Created (fst (post_transaction example_db example_clock 10 example_item_ids
      example_sale_missing)) \<and>
    Products (snd (post_transaction example_db example_clock 10 example_item_ids example_sale_missing))
     = Products example_db"
    by blast
  from post_transaction_accepts_every_request
    [of example_db example_clock 10 example_item_ids example_sale_negative] found
  have b: "\<exists>p'. FindAsync (Products (snd (post_transaction example_db example_clock 10 example_item_ids
       example_sale_negative))) 1 = Some p' \<and>
       p_Stock p' = p_Stock example_tea - line_quantity 1 (t_Items example_sale_negative)"
    by blast
  from none all found a b show ?thesis
    unfolding lq by (simp add: list_all_iff)
qed

section \<open>Facts about the cart screen\<close>

lemma calculateTotal_foldl:
  "foldl (\<lambda>sum item. sum + c_price (ci_product item) * ci_quantity item) a cart
     = foldl (+) a (map (\<lambda>item. c_price (ci_product item) * ci_quantity item) cart)"
  by (induction cart arbitrary: a) simp_all

lemma processTransaction_Some:
  "processTransaction cart = Some d \<Longrightarrow>
     cart \<noteq> [] \<and>
     d_items d = map (\<lambda>item.
             \<lparr>d_product_id = c_id (ci_product item),
              d_product_name = c_name (ci_product item),
              d_price = c_price (ci_product item),
              d_quantity = ci_quantity item,
              d_total = c_price (ci_product item) * ci_quantity item\<rparr>) cart \<and>
     d_subtotal d = calculateTotal cart \<and> d_tax d = 0 \<and> d_discount d = 0 \<and>
     d_grand_total d = calculateTotal cart"
  by (auto simp: processTransaction_def split: if_splits)

section \<open>Creating a transaction: line totals and subtotal\<close>

text \<open>
  Claim C3 as stated does not hold. The stored tea costs 9.99; a request for 2 of it that
  carries the line total 1 and the subtotal 500 is stored with exactly these amounts,
  which are neither 9.99 times 2 nor the sum of the line totals.
\<close>

theorem post_transaction_recomputes_counterexample:
  "FindAsync (Products example_db) 1 = Some example_tea \<and>
   p_Price example_tea = 999 / 100 \<and>
   map i_ProductId (t_Items example_sale_tampered) = [1] \<and>
   map i_Quantity (t_Items example_sale_tampered) = [2] \<and>
   map i_Total (t_Items (last (Transactions (snd (post_transaction example_db example_clock 10
       example_item_ids example_sale_tampered))))) = [1] \<and>
   (1 :: real) \<noteq> p_Price example_tea * 2 \<and>
   t_Subtotal (last (Transactions (snd (post_transaction example_db example_clock 10
       example_item_ids example_sale_tampered)))) = 500 \<and>
   (500 :: real) \<noteq> Sum (map i_Total (t_Items (last (Transactions (snd (post_transaction example_db
       example_clock 10 example_item_ids example_sale_tampered))))))"
  by (simp add: post_transaction_eq example_defs example_sale_tampered_def Add_Transaction_def Sum_def)

text \<open>
  Claim C3, amended. The server computes no amount: every stored line has the line total,
  price, quantity and product id of the request's line, and the stored subtotal is the
  subtotal of the request. The amounts are computed by the cart screen: the request
  \<open>processTransaction\<close> builds has, for every cart line, the line total price times
  quantity, with the price the client holds, and as subtotal the sum of these line totals.
\<close>

theorem post_transaction_stores_supplied_totals:
  fixes db :: "'m AppDbContext" and clk newId itemIds txn
  defines "stored \<equiv> body (fst (post_transaction db clk newId itemIds txn))"
  shows
  "last (Transactions (snd (post_transaction db clk newId itemIds txn))) = stored \<and>
   length (t_Items stored) = length (t_Items txn) \<and>
   (\<forall>j<length (t_Items txn).
      i_Total (t_Items stored ! j) = i_Total (t_Items txn ! j) \<and>
      i_Price (t_Items stored ! j) = i_Price (t_Items txn ! j) \<and>
      i_Quantity (t_Items stored ! j) = i_Quantity (t_Items txn ! j) \<and>
      i_ProductId (t_Items stored ! j) = i_ProductId (t_Items txn ! j)) \<and>
   t_Subtotal stored = t_Subtotal txn \<and>
   (\<forall>(cart :: ('n::{zero,plus,times}) CartItem list) d. processTransaction cart = Some d \<longrightarrow>
      length (d_items d) = length cart \<and>
      (\<forall>j<length cart.
         d_total (d_items d ! j) = c_price (ci_product (cart ! j)) * ci_quantity (cart ! j)) \<and>
      d_subtotal d = foldl (+) 0 (map d_total (d_items d)))"
proof -
  have a: "last (Transactions (snd (post_transaction db clk newId itemIds txn))) = stored"
    by (simp add: stored_def post_transaction_eq)
  have b: "length (t_Items stored) = length (t_Items txn)"
    by (simp add: stored_def post_transaction_eq)
  have c: "\<forall>j<length (t_Items txn).
      i_Total (t_Items stored ! j) = i_Total (t_Items txn ! j) \<and>
      i_Price (t_Items stored ! j) = i_Price (t_Items txn ! j) \<and>
      i_Quantity (t_Items stored ! j) = i_Quantity (t_Items txn ! j) \<and>
      i_ProductId (t_Items stored ! j) = i_ProductId (t_Items txn ! j)"
    by (simp add: stored_def post_transaction_eq nth_Items_Add_Transaction)
  have d: "t_Subtotal stored = t_Subtotal txn"
    by (simp add: stored_def post_transaction_eq)
  have e: "length (d_items d) = length cart \<and>
      (\<forall>j<length cart.
         d_total (d_items d ! j) = c_price (ci_product (cart ! j)) * ci_quantity (cart ! j)) \<and>
      d_subtotal d = foldl (+) 0 (map d_total (d_items d))"
    if "processTransaction cart = Some d" for cart :: "'n CartItem list" and d
  proof -
    from processTransaction_Some [OF that]
    have items: "d_items d = map (\<lambda>item.
             \<lparr>d_product_id = c_id (ci_product item),
              d_product_name = c_name (ci_product item),
              d_price = c_price (ci_product item),
              d_quantity = ci_quantity item,
              d_total = c_price (ci_product item) * ci_quantity item\<rparr>) cart"
      and sub: "d_subtotal d = calculateTotal cart"
      by simp_all
    have "map d_total (d_items d) = map (\<lambda>item. c_price (ci_product item) * ci_quantity item) cart"
      unfolding items by simp
    then have "d_subtotal d = foldl (+) 0 (map d_total (d_items d))"
      by (simp add: sub calculateTotal_def calculateTotal_foldl)
    then show ?thesis
      by (simp add: items)
  qed
  from a b c d e show ?thesis by blast
qed

theorem post_transaction_stores_supplied_totals_witness:
  "processTransaction example_cart \<noteq> None \<and>
   map d_total (d_items (the (processTransaction example_cart))) = [1998 / 100] \<and>
   d_subtotal (the (processTransaction example_cart)) = 1998 / 100 \<and>
   map i_Total (t_Items (body (fst (post_transaction example_db example_clock 10 example_item_ids
       example_sale_tampered)))) = [1] \<and>
   t_Subtotal (body (fst (post_transaction example_db example_clock 10 example_item_ids
       example_sale_tampered))) = 500"
proof -
  let ?d = "\<lparr>d_items =
         [\<lparr>d_product_id = ''1'', d_product_name = ''Tea'',
             d_price = 999 / 100, d_quantity = 2, d_total = 999 / 50 :: real\<rparr>],
         d_subtotal = 999 / 50, d_tax = 0, d_discount = 0,
         d_grand_total = 999 / 50, d_payment_method = ''cash'',
         d_customer_name = None, d_notes = None\<rparr>"
  have d: "processTransaction example_cart = Some ?d"
    by (simp add: processTransaction_def example_cart_def calculateTotal_def)
  have len: "(0::nat) < length example_cart"
    by (simp add: example_cart_def)
  have len2: "(0::nat) < length (t_Items example_sale_tampered)"
    by (simp add: example_sale_tampered_def)
  from post_transaction_stores_supplied_totals
    [of example_db example_clock 10 example_item_ids example_sale_tampered] d len len2
  have "d_total (d_items ?d ! 0) = c_price (ci_product (example_cart ! 0)) * ci_quantity (example_cart ! 0) \<and>
     d_subtotal ?d = foldl (+) 0 (map d_total (d_items ?d)) \<and>
     i_Total (t_Items (body (fst (post_transaction example_db example_clock 10 example_item_ids
       example_sale_tampered))) ! 0) = i_Total (t_Items example_sale_tampered ! 0) \<and>
     length (t_Items (body (fst (post_transaction example_db example_clock 10 example_item_ids
       example_sale_tampered)))) = length (t_Items example_sale_tampered) \<and>
     t_Subtotal (body (fst (post_transaction example_db example_clock 10 example_item_ids
       example_sale_tampered))) = t_Subtotal example_sale_tampered"
    by blast
  then show ?thesis
    unfolding d
    by (simp add: post_transaction_eq Add_Transaction_def example_defs example_sale_tampered_def)
qed

section \<open>Creating a transaction: the total\<close>

text \<open>
  Claim C5 as stated does not hold. A request with subtotal 10, discount 0, tax 0 and
  total 99 is answered Created and stored with these four amounts.
\<close>

theorem post_transaction_total_identity_counterexample:
  "is_Created (fst (post_transaction example_db example_clock 10 example_item_ids
       example_sale_unbalanced)) \<and>
   t_Total (last (Transactions (snd (post_transaction example_db example_clock 10 example_item_ids
       example_sale_unbalanced)))) = 99 \<and>
   t_Subtotal (last (Transactions (snd (post_transaction example_db example_clock 10 example_item_ids
       example_sale_unbalanced)))) = 10 \<and>
   t_Discount (last (Transactions (snd (post_transaction example_db example_clock 10 example_item_ids
       example_sale_unbalanced)))) = 0 \<and>
   t_Tax (last (Transactions (snd (post_transaction example_db example_clock 10 example_item_ids
       example_sale_unbalanced)))) = 0 \<and>
   t_Total (last (Transactions (snd (post_transaction example_db example_clock 10 example_item_ids
       example_sale_unbalanced))))
     \<noteq> t_Subtotal (last (Transactions (snd (post_transaction example_db example_clock 10
           example_item_ids example_sale_unbalanced))))
       - t_Discount (last (Transactions (snd (post_transaction example_db example_clock 10
           example_item_ids example_sale_unbalanced))))
       + t_Tax (last (Transactions (snd (post_transaction example_db example_clock 10
           example_item_ids example_sale_unbalanced))))"
  by (simp add: post_transaction_eq example_defs example_sale_unbalanced_def)

text \<open>
  Claim C5, amended. The server stores subtotal, discount, tax and total as the request
  carries them and checks no relation between them; so a stored transaction satisfies
  total = subtotal - discount + tax whenever its request did. The requests of the cart
  screen have tax 0, discount 0 and the total equal to the subtotal.
\<close>

theorem post_transaction_keeps_amounts:
  fixes db :: "('m::{minus,plus}) AppDbContext" and clk newId itemIds txn
  defines "stored \<equiv> last (Transactions (snd (post_transaction db clk newId itemIds txn)))"
  shows
  "stored = body (fst (post_transaction db clk newId itemIds txn)) \<and>
   t_Subtotal stored = t_Subtotal txn \<and> t_Discount stored = t_Discount txn \<and>
   t_Tax stored = t_Tax txn \<and> t_Total stored = t_Total txn \<and>
   (t_Total txn = t_Subtotal txn - t_Discount txn + t_Tax txn \<longrightarrow>
      t_Total stored = t_Subtotal stored - t_Discount stored + t_Tax stored) \<and>
   (\<forall>(cart :: ('n::{zero,plus,times}) CartItem list) d. processTransaction cart = Some d \<longrightarrow>
      d_tax d = 0 \<and> d_discount d = 0 \<and> d_grand_total d = d_subtotal d)"
proof -
  have a: "stored = body (fst (post_transaction db clk newId itemIds txn))"
    by (simp add: stored_def post_transaction_eq)
  have b: "t_Subtotal stored = t_Subtotal txn \<and> t_Discount stored = t_Discount txn \<and>
      t_Tax stored = t_Tax txn \<and> t_Total stored = t_Total txn"
    by (simp add: stored_def post_transaction_eq)
  then have c: "t_Total txn = t_Subtotal txn - t_Discount txn + t_Tax txn \<longrightarrow>
      t_Total stored = t_Subtotal stored - t_Discount stored + t_Tax stored"
    by simp
  have d: "d_tax d = 0 \<and> d_discount d = 0 \<and> d_grand_total d = d_subtotal d"
    if "processTransaction cart = Some d" for cart :: "'n CartItem list" and d
    using processTransaction_Some [OF that] by simp
  from a b c d show ?thesis by blast
qed

theorem post_transaction_keeps_amounts_witness:
  "t_Total example_sale = t_Subtotal example_sale - t_Discount example_sale + t_Tax example_sale \<and>
   t_Total (last (Transactions (snd (post_transaction example_db example_clock 10 example_item_ids
       example_sale)))) = 1998 / 100 \<and>
   t_Total (last (Transactions (snd (post_transaction example_db example_clock 10 example_item_ids
       example_sale))))
     = t_Subtotal (last (Transactions (snd (post_transaction example_db example_clock 10
           example_item_ids example_sale))))
       - t_Discount (last (Transactions (snd (post_transaction example_db example_clock 10
           example_item_ids example_sale))))
       + t_Tax (last (Transactions (snd (post_transaction example_db example_clock 10
           example_item_ids example_sale)))) \<and>
   processTransaction example_cart \<noteq> None \<and>
   d_grand_total (the (processTransaction example_cart)) = d_subtotal (the (processTransaction example_cart))"
proof -
  let ?d = "\<lparr>d_items =
         [\<lparr>d_product_id = ''1'', d_product_name = ''Tea'',
             d_price = 999 / 100, d_quantity = 2, d_total = 999 / 50 :: real\<rparr>],
         d_subtotal = 999 / 50, d_tax = 0, d_discount = 0,
         d_grand_total = 999 / 50, d_payment_method = ''cash'',
         d_customer_name = None, d_notes = None\<rparr>"
  have d: "processTransaction example_cart = Some ?d"
    by (simp add: processTransaction_def example_cart_def calculateTotal_def)
  have bal: "t_Total example_sale
      = t_Subtotal example_sale - t_Discount example_sale + t_Tax example_sale"
    by (simp add: example_sale_def)
  have val: "t_Total example_sale = 1998 / 100"
    by (simp add: example_sale_def)
  from post_transaction_keeps_amounts
    [of example_db example_clock 10 example_item_ids example_sale] bal d
  have "t_Total (last (Transactions (snd (post_transaction example_db example_clock 10 example_item_ids
       example_sale)))) = t_Total example_sale \<and>
   t_Total (last (Transactions (snd (post_transaction example_db example_clock 10 example_item_ids
       example_sale))))
     = t_Subtotal (last (Transactions (snd (post_transaction example_db example_clock 10
           example_item_ids example_sale))))
       - t_Discount (last (Transactions (snd (post_transaction example_db example_clock 10
           example_item_ids example_sale))))
       + t_Tax (last (Transactions (snd (post_transaction example_db example_clock 10
           example_item_ids example_sale)))) \<and>
   d_grand_total ?d = d_subtotal ?d"
    by blast
  with bal val show ?thesis
    unfolding d by simp
qed

section \<open>Facts about transaction numbers\<close>

lemma digit_cases: "d < 10 \<Longrightarrow> d \<in> {0, 1, 2, 3, 4, 5, 6, 7, 8, 9 :: nat}"
  by auto

lemma of_char_digit: "d < 10 \<Longrightarrow> of_char (digit d) = (48 + d :: nat)"
  using digit_cases [of d] by (auto simp: digit_def)

lemma digit_value_digit [simp]: "d < 10 \<Longrightarrow> digit_value (digit d) = d"
  by (simp add: digit_value_def of_char_digit)

lemma digit_less: "a < b \<Longrightarrow> b < 10 \<Longrightarrow> digit a < digit b"
  by (simp add: less_char_def of_char_digit)

lemma digit_0: "digit 0 = CHR ''0''"
  by (simp add: digit_def)

lemma length_fixed_width [simp]: "length (fixed_width w n) = w"
  by (induction w arbitrary: n) auto

lemma fixed_width_0: "fixed_width w 0 = replicate w (CHR ''0'')"
  by (induction w) (auto simp: digit_0 replicate_append_same)

lemma pad_dec_fixed_width:
  "n < 10 ^ w \<Longrightarrow> 0 < w \<Longrightarrow>
     replicate (w - length (dec n)) (CHR ''0'') @ dec n = fixed_width w n"
proof (induction w arbitrary: n)
  case 0
  then show ?case by simp
next
  case (Suc w)
  show ?case
  proof (cases "n < 10")
    case True
    then have "dec n = [digit n]" "n div 10 = 0" "n mod 10 = n"
      by (simp_all add: dec.simps)
    then show ?thesis
      by (simp add: fixed_width_0)
  next
    case False
    then have d: "dec n = dec (n div 10) @ [digit (n mod 10)]"
      by (subst dec.simps) simp
    from False Suc.prems have w: "0 < w"
      by (cases w) auto
    from Suc.prems have "n div 10 < 10 ^ w"
      by (simp add: less_mult_imp_div_less mult.commute)
    from Suc.IH [OF this w]
    have "replicate (w - length (dec (n div 10))) (CHR ''0'') @ dec (n div 10)
            = fixed_width w (n div 10)" .
    then show ?thesis
      by (simp add: d)
  qed
qed

lemma pad6_dec: "n < 1000000 \<Longrightarrow> pad6 (dec n) = fixed_width 6 n"
  using pad_dec_fixed_width [of n 6] by (simp add: pad6_def)

lemma fixed_width_less:
  "n < m \<Longrightarrow> m < 10 ^ w \<Longrightarrow> fixed_width w n < fixed_width w m"
proof (induction w arbitrary: n m)
  case 0
  then show ?case by simp
next
  case (Suc w)
  have le: "n div 10 \<le> m div 10"
    using Suc.prems(1) by (simp add: div_le_mono)
  show ?case
  proof (cases "n div 10 < m div 10")
    case True
    from Suc.prems(2) have "m div 10 < 10 ^ w"
      by (simp add: less_mult_imp_div_less mult.commute)
    from Suc.IH [OF True this]
    have "(fixed_width w (n div 10), fixed_width w (m div 10)) \<in> lexord {(u, v). u < v}"
      by (simp add: list_less_def)
    then have "(fixed_width w (n div 10) @ [digit (n mod 10)],
                fixed_width w (m div 10) @ [digit (m mod 10)]) \<in> lexord {(u, v). u < v}"
      by (rule lexord_sufI) simp
    then show ?thesis
      by (simp add: list_less_def)
  next
    case False
    with le have eq: "n div 10 = m div 10" by simp
    have "n = 10 * (n div 10) + n mod 10" "m = 10 * (m div 10) + m mod 10"
      by simp_all
    with eq Suc.prems(1) have "n mod 10 < m mod 10"
      by linarith
    then have "digit (n mod 10) < digit (m mod 10)"
      by (rule digit_less) simp
    then have "([digit (n mod 10)], [digit (m mod 10)]) \<in> lexord {(u, v). u < v}"
      by simp
    then have "(fixed_width w (m div 10) @ [digit (n mod 10)],
                fixed_width w (m div 10) @ [digit (m mod 10)]) \<in> lexord {(u, v). u < v}"
      by (rule lexord_append_leftI)
    then show ?thesis
      by (simp add: list_less_def eq)
  qed
qed

lemma pad6_dec_less: "n < m \<Longrightarrow> m < 1000000 \<Longrightarrow> pad6 (dec n) < pad6 (dec m)"
  using fixed_width_less [of n m 6] by (simp add: pad6_dec)

lemma append_less_append: "(u :: string) < v \<Longrightarrow> s @ u < s @ v"
  by (simp add: list_less_def lexord_append_leftI)

lemma decimal_value_append [simp]:
  "decimal_value (s @ [c]) = 10 * decimal_value s + digit_value c"
  by (simp add: decimal_value_def)

lemma decimal_value_dec: "decimal_value (dec n) = n"
proof (induction n rule: dec.induct)
  case (1 n)
  show ?case
  proof (cases "n < 10")
    case True
    then have "dec n = [digit n]"
      by (simp add: dec.simps)
    with True show ?thesis
      by (simp add: decimal_value_def)
  next
    case False
    then have "dec n = dec (n div 10) @ [digit (n mod 10)]"
      by (subst dec.simps) simp
    with False "1.IH" show ?thesis
      by simp
  qed
qed

lemma decimal_value_zeros:
  "decimal_value (replicate k (CHR ''0'') @ s) = decimal_value s"
proof -
  have "foldl (\<lambda>a c. 10 * a + digit_value c) 0 (replicate k (CHR ''0'')) = 0"
    by (induction k) (simp_all add: replicate_append_same [symmetric] digit_value_def)
  then show ?thesis
    by (simp add: decimal_value_def)
qed

lemma decimal_value_pad6: "decimal_value (pad6 (dec n)) = n"
  by (simp add: pad6_def decimal_value_zeros decimal_value_dec)

lemma sint_count_plus_1:
  assumes "n < 2147483647" and that: "length xs = n"
  shows "sint (CountAsync xs + 1) = int (length xs) + 1"
proof -
  have "CountAsync xs + 1 = (word_of_int (int n + 1) :: int32)"
    using that by (simp add: CountAsync_def)
  then have "sint (CountAsync xs + 1) = signed_take_bit (LENGTH(32) - 1) (int n + 1)"
    by (simp only: sint_sbintrunc')
  also have "\<dots> = int n + 1"
    using assms by (intro signed_take_bit_int_eq_self) simp_all
  finally show ?thesis
    using that by simp
qed

lemma TransactionNumber_CountAsync:
  "length xs < 2147483647 \<Longrightarrow>
     TransactionNumber (CountAsync xs) = ''TXN-'' @ pad6 (dec (Suc (length xs)))"
  using sint_count_plus_1 [of "length xs" xs]
  by (simp add: TransactionNumber_def format_000000_def nat_add_distrib)

lemma dec_999999: "dec 999999 = ''999999''"
  by (simp add: dec.simps digit_def)

lemma dec_1000000: "dec 1000000 = ''1000000''"
  by (simp add: dec.simps digit_def)

lemma dec_small: "dec 1 = ''1''" "dec 2 = ''2''"
  by (simp_all add: dec.simps digit_def)

lemma Transactions_post_transaction:
  "Transactions (snd (post_transaction db clk newId itemIds txn))
     = Transactions db @ [body (fst (post_transaction db clk newId itemIds txn))]"
  by (simp add: post_transaction_eq)

lemma TransactionNumber_post_transaction:
  "t_TransactionNumber (body (fst (post_transaction db clk newId itemIds txn)))
     = TransactionNumber (CountAsync (Transactions db))"
  by (simp add: post_transaction_eq)

lemma numbers_post_transactions:
  "map t_TransactionNumber (Transactions (post_transactions db rs))
     = map t_TransactionNumber (Transactions db) @
       map (\<lambda>i. TransactionNumber (word_of_nat (length (Transactions db) + i))) [0..<length rs]"
proof (induction rs arbitrary: db)
  case Nil
  then show ?case by simp
next
  case (Cons r rs)
  obtain clk newId itemIds txn where r: "r = (clk, newId, itemIds, txn)"
    by (cases r) auto
  let ?db = "snd (post_transaction db clk newId itemIds txn)"
  have len: "length (Transactions ?db) = Suc (length (Transactions db))"
    by (simp add: Transactions_post_transaction)
  have nums: "map t_TransactionNumber (Transactions ?db)
      = map t_TransactionNumber (Transactions db)
        @ [TransactionNumber (word_of_nat (length (Transactions db)))]"
    by (simp add: Transactions_post_transaction TransactionNumber_post_transaction CountAsync_def)
  have "map t_TransactionNumber (Transactions (post_transactions db (r # rs)))
      = map t_TransactionNumber (Transactions (post_transactions ?db rs))"
    by (simp add: r)
  also have "\<dots> = map t_TransactionNumber (Transactions ?db) @
       map (\<lambda>i. TransactionNumber (word_of_nat (length (Transactions ?db) + i))) [0..<length rs]"
    by (rule Cons.IH)
  also have "\<dots> = map t_TransactionNumber (Transactions db) @
       map (\<lambda>i. TransactionNumber (word_of_nat (length (Transactions db) + i))) [0..<length (r # rs)]"
    unfolding nums len by (simp add: map_upt_Suc ac_simps del: upt_Suc)
  finally show ?case .
qed

lemma assigned_numbers:
  "map t_TransactionNumber (drop (length (Transactions db)) (Transactions (post_transactions db rs)))
     = map (\<lambda>i. TransactionNumber (word_of_nat (length (Transactions db) + i))) [0..<length rs]"
proof -
  have "map t_TransactionNumber (drop (length (Transactions db)) (Transactions (post_transactions db rs)))
      = drop (length (Transactions db)) (map t_TransactionNumber (Transactions (post_transactions db rs)))"
    by (simp add: drop_map)
  then show ?thesis
    by (simp add: numbers_post_transactions)
qed

lemma TransactionNumber_of_nat:
  "n < 2147483647 \<Longrightarrow> TransactionNumber (word_of_nat n) = ''TXN-'' @ pad6 (dec (Suc n))"
  using TransactionNumber_CountAsync [of "replicate n ()"] by (simp add: CountAsync_def)

lemma pad6_small:
  "pad6 (dec (Suc 0)) = ''000001''" "pad6 (dec 1) = ''000001''" "pad6 (dec 2) = ''000002''"
  by (simp_all add: pad6_def dec.simps digit_def eval_nat_numeral)

section \<open>Transaction numbers\<close>

text \<open>
  Claim C4 as stated does not hold. In a store with 999998 transactions the next two
  creations assign \<open>TXN-999999\<close> and then \<open>TXN-1000000\<close>, and the second string is not
  lexicographically greater than the first.
\<close>

theorem TransactionNumber_lexicographic_counterexample:
  "length (Transactions example_db_full) = 999998 \<and>
   t_TransactionNumber (body (fst (post_transaction example_db_full example_clock 10
       example_item_ids example_sale))) = ''TXN-999999'' \<and>
   t_TransactionNumber (body (fst (post_transaction
       (snd (post_transaction example_db_full example_clock 10 example_item_ids example_sale))
       example_clock2 11 example_item_ids example_sale))) = ''TXN-1000000'' \<and>
   \<not> t_TransactionNumber (body (fst (post_transaction example_db_full example_clock 10
       example_item_ids example_sale)))
     < t_TransactionNumber (body (fst (post_transaction
         (snd (post_transaction example_db_full example_clock 10 example_item_ids example_sale))
         example_clock2 11 example_item_ids example_sale)))"
proof -
  have n: "length (Transactions example_db_full) = 999998"
    by (simp add: example_db_full_def)
  have first: "t_TransactionNumber (body (fst (post_transaction example_db_full example_clock 10
       example_item_ids example_sale))) = ''TXN-999999''"
    by (simp add: TransactionNumber_post_transaction CountAsync_def n TransactionNumber_def
        format_000000_def pad6_def dec_999999)
  have n': "length (Transactions (snd (post_transaction example_db_full example_clock 10
      example_item_ids example_sale))) = 999999"
    by (simp add: Transactions_post_transaction n)
  have second: "t_TransactionNumber (body (fst (post_transaction
       (snd (post_transaction example_db_full example_clock 10 example_item_ids example_sale))
       example_clock2 11 example_item_ids example_sale))) = ''TXN-1000000''"
    by (simp add: TransactionNumber_post_transaction CountAsync_def n' TransactionNumber_def
        format_000000_def pad6_def dec_1000000)
  have "\<not> (''TXN-999999'' :: string) < ''TXN-1000000''"
    by simp
  with n first second show ?thesis
    by simp
qed

text \<open>
  Claim C4, amended. The number assigned by \<^verbatim>\<open>POST /api/transactions\<close> is \<open>TXN-\<close>
  followed by the count of stored transactions plus one, formatted with \<open>000000\<close>: at
  least six digits, zero-padded. For requests handled one after the other the numbers
  assigned read as the count plus 1, 2, 3, ... and so each is numerically greater than
  all assigned before it (as long as the count fits a 32-bit integer); each is also
  lexicographically greater than all assigned before it as long as the numbers have at
  most six digits, that is up to \<open>TXN-999999\<close>.
\<close>

theorem TransactionNumber_increases:
  fixes db :: "'m AppDbContext" and rs :: "'m request list" and clk newId itemIds txn
  defines "numbers \<equiv>
    map t_TransactionNumber (drop (length (Transactions db)) (Transactions (post_transactions db rs)))"
  shows
  "t_TransactionNumber (body (fst (post_transaction db clk newId itemIds txn)))
     = ''TXN-'' @ format_000000 (sint (CountAsync (Transactions db) + 1)) \<and>
   (length (Transactions db) < 2147483647 \<longrightarrow>
      t_TransactionNumber (body (fst (post_transaction db clk newId itemIds txn)))
        = ''TXN-'' @ pad6 (dec (length (Transactions db) + 1))) \<and>
   length numbers = length rs \<and>
   (length (Transactions db) + length rs \<le> 2147483647 \<longrightarrow>
      (\<forall>j<length rs. decimal_value (drop 4 (numbers ! j)) = length (Transactions db) + j + 1) \<and>
      (\<forall>i j. i < j \<and> j < length rs \<longrightarrow>
         decimal_value (drop 4 (numbers ! i)) < decimal_value (drop 4 (numbers ! j)))) \<and>
   (length (Transactions db) + length rs \<le> 999999 \<longrightarrow>
      (\<forall>i j. i < j \<and> j < length rs \<longrightarrow> numbers ! i < numbers ! j))"
proof -
  let ?n = "length (Transactions db)"
  have a: "t_TransactionNumber (body (fst (post_transaction db clk newId itemIds txn)))
     = ''TXN-'' @ format_000000 (sint (CountAsync (Transactions db) + 1))"
    by (simp add: TransactionNumber_post_transaction TransactionNumber_def)
  have b: "?n < 2147483647 \<longrightarrow>
      t_TransactionNumber (body (fst (post_transaction db clk newId itemIds txn)))
        = ''TXN-'' @ pad6 (dec (?n + 1))"
    by (simp add: TransactionNumber_post_transaction TransactionNumber_CountAsync)
  have nums: "numbers = map (\<lambda>i. TransactionNumber (word_of_nat (?n + i))) [0..<length rs]"
    unfolding numbers_def by (rule assigned_numbers)
  then have c: "length numbers = length rs"
    by simp
  have nth: "numbers ! j = ''TXN-'' @ pad6 (dec (?n + j + 1))"
    if "j < length rs" "?n + length rs \<le> 2147483647" for j
    using that TransactionNumber_of_nat [of "?n + j"] by (simp add: nums)
  have val: "decimal_value (drop 4 (numbers ! j)) = ?n + j + 1"
    if "j < length rs" "?n + length rs \<le> 2147483647" for j
    using nth [OF that] by (simp add: decimal_value_pad6)
  have d: "?n + length rs \<le> 2147483647 \<longrightarrow>
      (\<forall>j<length rs. decimal_value (drop 4 (numbers ! j)) = ?n + j + 1) \<and>
      (\<forall>i j. i < j \<and> j < length rs \<longrightarrow>
         decimal_value (drop 4 (numbers ! i)) < decimal_value (drop 4 (numbers ! j)))"
    using val by auto
  have e: "numbers ! i < numbers ! j"
    if "?n + length rs \<le> 999999" "i < j" "j < length rs" for i j
  proof -
    from that have big: "?n + length rs \<le> 2147483647" and i: "i < length rs"
      by simp_all
    have "pad6 (dec (?n + i + 1)) < pad6 (dec (?n + j + 1))"
      using that by (intro pad6_dec_less) simp_all
    then have "''TXN-'' @ pad6 (dec (?n + i + 1)) < ''TXN-'' @ pad6 (dec (?n + j + 1))"
      by (rule append_less_append)
    then show ?thesis
      using nth [OF i big] nth [OF that(3) big] by simp
  qed
  from a b c d e show ?thesis by blast
qed

theorem TransactionNumber_increases_witness:
  "length (Transactions example_db) + length example_requests \<le> 999999 \<and>
   map t_TransactionNumber (drop (length (Transactions example_db))
      (Transactions (post_transactions example_db example_requests)))
     = [''TXN-000001'', ''TXN-000002''] \<and>
   t_TransactionNumber (body (fst (post_transaction example_db example_clock 10 example_item_ids
      example_sale))) = ''TXN-000001'' \<and>
   (''TXN-000001'' :: string) < ''TXN-000002'' \<and>
   decimal_value (drop 4 ''TXN-000001'') < decimal_value (drop 4 ''TXN-000002'')"
proof -
  let ?numbers = "map t_TransactionNumber (drop (length (Transactions example_db))
      (Transactions (post_transactions example_db example_requests)))"
  have len: "length (Transactions example_db) + length example_requests \<le> 999999"
      "length (Transactions example_db) + length example_requests \<le> 2147483647"
      "length (Transactions example_db) < 2147483647"
    by (simp_all add: example_db_def example_requests_def)
  have nums: "?numbers = [''TXN-000001'', ''TXN-000002'']"
    unfolding assigned_numbers
    by (simp add: example_requests_def example_db_def TransactionNumber_def
        format_000000_def pad6_small)
  note T = TransactionNumber_increases [where db = example_db and rs = example_requests
      and clk = example_clock and newId = 10 and itemIds = example_item_ids and txn = example_sale]
  from T len have lex: "\<forall>i j. i < j \<and> j < length example_requests \<longrightarrow> ?numbers ! i < ?numbers ! j"
    by blast
  from T len have num: "\<forall>i j. i < j \<and> j < length example_requests \<longrightarrow>
      decimal_value (drop 4 (?numbers ! i)) < decimal_value (drop 4 (?numbers ! j))"
    by blast
  from T len have one: "t_TransactionNumber (body (fst (post_transaction example_db example_clock 10
      example_item_ids example_sale))) = ''TXN-'' @ pad6 (dec (length (Transactions example_db) + 1))"
    by blast
  have ij: "(0::nat) < 1 \<and> 1 < length example_requests"
    by (simp add: example_requests_def)
  from lex ij have "?numbers ! 0 < ?numbers ! 1"
    by blast
  then have a: "(''TXN-000001'' :: string) < ''TXN-000002''"
    unfolding nums by simp
  from num ij have "decimal_value (drop 4 (?numbers ! 0)) < decimal_value (drop 4 (?numbers ! 1))"
    by blast
  then have b: "decimal_value (drop 4 ''TXN-000001'') < decimal_value (drop 4 ''TXN-000002'')"
    unfolding nums by simp
  have c: "t_TransactionNumber (body (fst (post_transaction example_db example_clock 10
      example_item_ids example_sale))) = ''TXN-000001''"
    unfolding one by (simp add: example_db_def pad6_small)
  from len(1) nums a b c show ?thesis
    by blast
qed

section \<open>Facts about days and counts\<close>

lemma Date_le: "Date t \<le> t"
  by (simp add: Date_def TicksPerDay_def)

lemma Date_eq_iff: "Date s = Date t \<longleftrightarrow> s div TicksPerDay = t div TicksPerDay"
proof -
  have "Date u = TicksPerDay * (u div TicksPerDay)" for u
    by (simp add: Date_def minus_mod_eq_mult_div)
  then show ?thesis
    by (simp add: TicksPerDay_def)
qed

lemma today_filter:
  assumes "t \<le> now"
  shows "Date now \<le> t \<longleftrightarrow> Date t = Date now"
proof
  assume "Date now \<le> t"
  then have "TicksPerDay * (now div TicksPerDay) \<le> t"
    by (simp add: Date_def minus_mod_eq_mult_div)
  then have "now div TicksPerDay \<le> t div TicksPerDay"
    by (simp add: TicksPerDay_def)
  moreover from assms have "t div TicksPerDay \<le> now div TicksPerDay"
    by (simp add: TicksPerDay_def zdiv_mono1)
  ultimately show "Date t = Date now"
    by (simp add: Date_eq_iff)
next
  assume "Date t = Date now"
  with Date_le [of t] show "Date now \<le> t"
    by simp
qed

lemma CountAsync_snoc: "CountAsync (xs @ [x]) = CountAsync xs + 1"
  by (simp add: CountAsync_def)

text \<open>
  The creation time of a transaction is a reading of the server's clock, so with a clock
  that does not run backwards no stored transaction is younger than the present reading.
\<close>

lemma post_transaction_no_future:
  assumes "\<forall>t\<in>set (Transactions db). t_CreatedAt t \<le> now" and "clk 0 \<le> now"
  shows "\<forall>t\<in>set (Transactions (snd (post_transaction db clk newId itemIds txn))). t_CreatedAt t \<le> now"
  using assms by (simp add: post_transaction_eq)

section \<open>Dashboard statistics: what is counted\<close>

text \<open>
  Claim C9. \<^verbatim>\<open>GET /api/dashboard/stats\<close> answers Ok with: the number of active
  products; the number of all stored transactions; the number of active products whose
  stock is below 10; and, the stored transactions being no younger than the clock reading
  of the request, the sum of the totals and the number of the transactions created on the
  UTC day of that reading. Creating an active product with stock 5 raises the low-stock
  count by exactly 1. Counts are C\# 32-bit integers.
\<close>

theorem get_dashboard_stats_counts:
  fixes db :: "('m::{zero,plus}) AppDbContext" and clk clk' newId
  defines "stats \<equiv> body (get_dashboard_stats db clk)"
  shows
  "get_dashboard_stats db clk = Ok stats \<and>
   totalProducts stats = word_of_nat (length (filter p_IsActive (Products db))) \<and>
   totalTransactions stats = word_of_nat (length (Transactions db)) \<and>
   lowStockCount stats
     = word_of_nat (length (filter (\<lambda>p. p_IsActive p \<and> sint (p_Stock p) < 10) (Products db))) \<and>
   ((\<forall>t\<in>set (Transactions db). t_CreatedAt t \<le> clk 0) \<longrightarrow>
      todayRevenue stats
        = Sum (map t_Total (filter (\<lambda>t. Date (t_CreatedAt t) = Date (clk 0)) (Transactions db))) \<and>
      todayTransactions stats
        = word_of_nat (length (filter (\<lambda>t. Date (t_CreatedAt t) = Date (clk 0)) (Transactions db)))) \<and>
   (\<forall>product. p_IsActive product \<and> p_Stock product = 5 \<longrightarrow>
      lowStockCount (body (get_dashboard_stats (snd (post_product db clk' newId product)) clk))
        = lowStockCount stats + 1)"
proof -
  have a: "get_dashboard_stats db clk = Ok stats"
    by (simp add: stats_def get_dashboard_stats_def Let_def)
  have b: "totalProducts stats = word_of_nat (length (filter p_IsActive (Products db)))"
    by (simp add: stats_def get_dashboard_stats_def Let_def CountAsync_def)
  have c: "totalTransactions stats = word_of_nat (length (Transactions db))"
    by (simp add: stats_def get_dashboard_stats_def Let_def CountAsync_def)
  have low: "(\<lambda>p::'m Product. p_Stock p <s 10 \<and> p_IsActive p)
      = (\<lambda>p. p_IsActive p \<and> sint (p_Stock p) < 10)"
    by (auto simp: word_sless_alt)
  have d: "lowStockCount stats
     = word_of_nat (length (filter (\<lambda>p. p_IsActive p \<and> sint (p_Stock p) < 10) (Products db)))"
    by (simp add: stats_def get_dashboard_stats_def Let_def CountAsync_def low)
  have e: "todayRevenue stats
        = Sum (map t_Total (filter (\<lambda>t. Date (t_CreatedAt t) = Date (clk 0)) (Transactions db))) \<and>
      todayTransactions stats
        = word_of_nat (length (filter (\<lambda>t. Date (t_CreatedAt t) = Date (clk 0)) (Transactions db)))"
    if past: "\<forall>t\<in>set (Transactions db). t_CreatedAt t \<le> clk 0"
  proof -
    have "filter (\<lambda>t. Date (clk 0) \<le> t_CreatedAt t) (Transactions db)
        = filter (\<lambda>t. Date (t_CreatedAt t) = Date (clk 0)) (Transactions db)"
      using past by (intro filter_cong refl) (simp add: today_filter)
    then show ?thesis
      by (simp add: stats_def get_dashboard_stats_def Let_def CountAsync_def)
  qed
  have f: "lowStockCount (body (get_dashboard_stats (snd (post_product db clk' newId product)) clk))
        = lowStockCount stats + 1"
    if "p_IsActive product \<and> p_Stock product = 5" for product
    using that
    by (simp add: stats_def get_dashboard_stats_def Let_def post_product_def CountAsync_def
        word_sless_alt)
  from a b c d e f show ?thesis by blast
qed

theorem get_dashboard_stats_counts_witness:
  "list_all (\<lambda>t. t_CreatedAt t \<le> example_clock_noon 0) (Transactions example_db_sales) \<and>
   map (\<lambda>t. Date (t_CreatedAt t) = Date (example_clock_noon 0)) (Transactions example_db_sales)
     = [False, True] \<and>
   todayRevenue (body (get_dashboard_stats example_db_sales example_clock_noon)) = 20 \<and>
   todayTransactions (body (get_dashboard_stats example_db_sales example_clock_noon)) = 1 \<and>
   totalTransactions (body (get_dashboard_stats example_db_sales example_clock_noon)) = 2 \<and>
   totalProducts (body (get_dashboard_stats example_db_sales example_clock_noon)) = 1 \<and>
   lowStockCount (body (get_dashboard_stats example_db_sales example_clock_noon)) = 1 \<and>
   p_IsActive example_tea \<and> p_Stock example_tea = 5 \<and>
   lowStockCount (body (get_dashboard_stats
       (snd (post_product example_db_sales example_clock 2 example_tea)) example_clock_noon)) = 2"
proof -
  have past: "\<forall>t\<in>set (Transactions example_db_sales). t_CreatedAt t \<le> example_clock_noon 0"
    by (simp add: example_db_sales_def example_sale_yesterday_def example_sale_today_def
        example_clock_noon_def)
  have days: "map (\<lambda>t. Date (t_CreatedAt t) = Date (example_clock_noon 0))
      (Transactions example_db_sales) = [False, True]"
    by (simp add: example_db_sales_def example_sale_yesterday_def example_sale_today_def
        example_clock_noon_def Date_def TicksPerDay_def)
  have today: "filter (\<lambda>t. Date (t_CreatedAt t) = Date (example_clock_noon 0))
      (Transactions example_db_sales) = [example_sale_today]"
    by (simp add: example_db_sales_def example_sale_yesterday_def example_sale_today_def
        example_clock_noon_def Date_def TicksPerDay_def)
  have tea: "p_IsActive example_tea \<and> p_Stock example_tea = 5"
    by (simp add: example_tea_def)
  have prods: "filter p_IsActive (Products example_db_sales) = [example_tea]"
      "filter (\<lambda>p. p_IsActive p \<and> sint (p_Stock p) < 10) (Products example_db_sales) = [example_tea]"
    by (simp_all add: example_db_sales_def example_tea_def)
  note T = get_dashboard_stats_counts [where db = example_db_sales and clk = example_clock_noon
      and clk' = example_clock and newId = 2]
  from T past have
    "todayRevenue (body (get_dashboard_stats example_db_sales example_clock_noon))
       = Sum (map t_Total (filter (\<lambda>t. Date (t_CreatedAt t) = Date (example_clock_noon 0))
           (Transactions example_db_sales)))"
    "todayTransactions (body (get_dashboard_stats example_db_sales example_clock_noon))
       = word_of_nat (length (filter (\<lambda>t. Date (t_CreatedAt t) = Date (example_clock_noon 0))
           (Transactions example_db_sales)))"
    by blast+
  then have a: "todayRevenue (body (get_dashboard_stats example_db_sales example_clock_noon)) = 20"
    "todayTransactions (body (get_dashboard_stats example_db_sales example_clock_noon)) = 1"
    unfolding today by (simp_all add: Sum_def example_sale_today_def)
  from T have
    "totalTransactions (body (get_dashboard_stats example_db_sales example_clock_noon))
       = word_of_nat (length (Transactions example_db_sales))"
    "totalProducts (body (get_dashboard_stats example_db_sales example_clock_noon))
       = word_of_nat (length (filter p_IsActive (Products example_db_sales)))"
    "lowStockCount (body (get_dashboard_stats example_db_sales example_clock_noon))
       = word_of_nat (length (filter (\<lambda>p. p_IsActive p \<and> sint (p_Stock p) < 10)
           (Products example_db_sales)))"
    by blast+
  then have b: "totalTransactions (body (get_dashboard_stats example_db_sales example_clock_noon)) = 2"
    "totalProducts (body (get_dashboard_stats example_db_sales example_clock_noon)) = 1"
    "lowStockCount (body (get_dashboard_stats example_db_sales example_clock_noon)) = 1"
    unfolding prods by (simp_all add: example_db_sales_def)
  from T tea have
    "lowStockCount (body (get_dashboard_stats
       (snd (post_product example_db_sales example_clock 2 example_tea)) example_clock_noon))
     = lowStockCount (body (get_dashboard_stats example_db_sales example_clock_noon)) + 1"
    by blast
  then have c: "lowStockCount (body (get_dashboard_stats
       (snd (post_product example_db_sales example_clock 2 example_tea)) example_clock_noon)) = 2"
    unfolding b by simp
  from past days a b tea c show ?thesis
    by (simp add: list_all_iff)
qed

section \<open>Creating and updating a product: no validation on the server\<close>

text \<open>
  Claim C6 as stated does not hold. A body with an empty name, the price \<open>-1\<close> and the
  stock \<open>-5\<close> is answered Created and stored as sent; an update with the price \<open>-2\<close>
  is answered Ok and stored.
\<close>

theorem post_product_validates_counterexample:
  "is_Created (fst (post_product example_db example_clock 2 (bind_Product 0 0 example_body_bad))) \<and>
   p_Name (last (Products (snd (post_product example_db example_clock 2
      (bind_Product 0 0 example_body_bad))))) = Some [] \<and>
   p_Price (last (Products (snd (post_product example_db example_clock 2
      (bind_Product 0 0 example_body_bad))))) = - 1 \<and>
   \<not> 0 < p_Price (last (Products (snd (post_product example_db example_clock 2
      (bind_Product 0 0 example_body_bad))))) \<and>
   sint (p_Stock (last (Products (snd (post_product example_db example_clock 2
      (bind_Product 0 0 example_body_bad)))))) = - 5 \<and>
   \<not> 0 \<le> sint (p_Stock (last (Products (snd (post_product example_db example_clock 2
      (bind_Product 0 0 example_body_bad)))))) \<and>
   is_Ok (fst (put_product example_db example_clock 1 (bind_Product 0 0 example_body_negative_price))) \<and>
   map p_Price (Products (snd (put_product example_db example_clock 1
      (bind_Product 0 0 example_body_negative_price)))) = [- 2]"
  by (simp add: post_product_def put_product_def merge_update_def bind_Product_def new_Product_def
      example_body_bad_def example_body_negative_price_def example_db_def example_tea_def Let_def)

text \<open>
  Claim C6, amended. \<^verbatim>\<open>POST /api/products\<close> validates nothing: it answers Created and
  stores the product with the name, price, stock and category of the request, setting
  only the key and the two timestamps; so price > 0 and stock \<ge> 0 hold after creation
  exactly when the request had them. A body without a category is bound to the category
  General. \<^verbatim>\<open>PUT /api/products/{id}\<close> stores any price other than 0 and any
  stock other than 0, each on its own and whatever its sign; a price or stock of 0 leaves
  the stored value. The requirements are those of the add-product form of the client:
  a request it sends has a non-empty name, a price > 0, a stock \<ge> 0, and the category
  General if none was chosen.
\<close>

theorem post_product_stores_request:
  fixes db :: "('m::zero) AppDbContext" and product update :: "'m Product"
    and b :: "'m ProductBody" and clk newId k now1 now2
  defines "stored \<equiv> product\<lparr>p_CreatedAt := clk 0, p_UpdatedAt := clk 1, p_Id := newId\<rparr>"
  shows
  "post_product db clk newId product
     = (Created (''/api/products/'' @ Int32_ToString newId) stored,
        db\<lparr>Products := Products db @ [stored]\<rparr>) \<and>
   p_Name stored = p_Name product \<and> p_Price stored = p_Price product \<and>
   p_Stock stored = p_Stock product \<and> p_Category stored = p_Category product \<and>
   p_Category (bind_Product now1 now2 b)
     = (case b_category b of None \<Rightarrow> Some ''General'' | Some c \<Rightarrow> c) \<and>
   (\<forall>p. FindAsync (Products db) k = Some p \<longrightarrow>
      is_Ok (fst (put_product db clk k update)) \<and>
      FindAsync (Products (snd (put_product db clk k update))) k
        = Some (body (fst (put_product db clk k update))) \<and>
      (p_Price update \<noteq> 0 \<longrightarrow>
         p_Price (body (fst (put_product db clk k update))) = p_Price update) \<and>
      (p_Price update = 0 \<longrightarrow>
         p_Price (body (fst (put_product db clk k update))) = p_Price p) \<and>
      (p_Stock update \<noteq> 0 \<longrightarrow>
         p_Stock (body (fst (put_product db clk k update))) = p_Stock update) \<and>
      (p_Stock update = 0 \<longrightarrow>
         p_Stock (body (fst (put_product db clk k update))) = p_Stock p)) \<and>
   (\<forall>(Number :: string \<Rightarrow> 'n::{zero,linorder}) isNaN trim formData productData.
      AddProductScreen_handleSubmit Number isNaN trim formData = Inr productData \<longrightarrow>
        a_name productData \<noteq> [] \<and> 0 < a_price productData \<and> 0 \<le> a_stock productData \<and>
        a_category productData
          = (if f_category formData = [] then ''General'' else f_category formData))"
proof -
  have a: "post_product db clk newId product
     = (Created (''/api/products/'' @ Int32_ToString newId) stored,
        db\<lparr>Products := Products db @ [stored]\<rparr>)"
    by (simp add: post_product_def stored_def Let_def)
  have b: "p_Name stored = p_Name product \<and> p_Price stored = p_Price product \<and>
      p_Stock stored = p_Stock product \<and> p_Category stored = p_Category product"
    by (simp add: stored_def)
  have c: "p_Category (bind_Product now1 now2 b)
     = (case b_category b of None \<Rightarrow> Some ''General'' | Some c \<Rightarrow> c)"
    by (simp add: bind_Product_def new_Product_def Let_def split: option.splits)
  have d: "is_Ok (fst (put_product db clk k update)) \<and>
      FindAsync (Products (snd (put_product db clk k update))) k
        = Some (body (fst (put_product db clk k update))) \<and>
      (p_Price update \<noteq> 0 \<longrightarrow>
         p_Price (body (fst (put_product db clk k update))) = p_Price update) \<and>
      (p_Price update = 0 \<longrightarrow>
         p_Price (body (fst (put_product db clk k update))) = p_Price p) \<and>
      (p_Stock update \<noteq> 0 \<longrightarrow>
         p_Stock (body (fst (put_product db clk k update))) = p_Stock update) \<and>
      (p_Stock update = 0 \<longrightarrow>
         p_Stock (body (fst (put_product db clk k update))) = p_Stock p)"
    if "FindAsync (Products db) k = Some p" for p
  proof -
    have "p_Id (merge_update (clk 0) update q) = p_Id q" for q :: "'m Product"
      by (simp add: merge_update_def)
    then have "FindAsync (update_entity k (merge_update (clk 0) update) (Products db)) k
        = Some (merge_update (clk 0) update p)"
      using that by (simp add: FindAsync_update_entity)
    with that show ?thesis
      by (simp add: put_product_def merge_update_def)
  qed
  have e: "a_name productData \<noteq> [] \<and> 0 < a_price productData \<and> 0 \<le> a_stock productData \<and>
        a_category productData
          = (if f_category formData = [] then ''General'' else f_category formData)"
    if "AddProductScreen_handleSubmit Number isNaN trim formData = Inr productData"
    for Number :: "string \<Rightarrow> 'n" and isNaN trim formData productData
    using that
    by (auto simp: AddProductScreen_handleSubmit_def split: if_splits)
  from a b c d e show ?thesis by blast
qed

theorem post_product_stores_request_witness:
  "FindAsync (Products example_db) 1 = Some example_tea \<and>
   p_Price (bind_Product 0 0 example_body_negative_price) = - 2 \<and>
   p_Stock (bind_Product 0 0 example_body_negative_price) = 0 \<and>
   is_Ok (fst (put_product example_db example_clock 1
      (bind_Product 0 0 example_body_negative_price))) \<and>
   p_Price (body (fst (put_product example_db example_clock 1
      (bind_Product 0 0 example_body_negative_price)))) = - 2 \<and>
   p_Stock (body (fst (put_product example_db example_clock 1
      (bind_Product 0 0 example_body_negative_price)))) = 5 \<and>
   p_Price (bind_Product 0 0 example_body_negative_stock) = 0 \<and>
   p_Stock (bind_Product 0 0 example_body_negative_stock) = - 7 \<and>
   p_Price (body (fst (put_product example_db example_clock 1
      (bind_Product 0 0 example_body_negative_stock)))) = 999 / 100 \<and>
   p_Stock (body (fst (put_product example_db example_clock 1
      (bind_Product 0 0 example_body_negative_stock)))) = - 7 \<and>
   AddProductScreen_handleSubmit example_Number (\<lambda>x. False) (\<lambda>s. s) example_form
     = Inr \<lparr>a_name = ''Tea'', a_description = ''Green tea'', a_price = 999 / 100, a_stock = 5,
            a_category = ''General'', a_image = None\<rparr> \<and>
   (0 :: real) < 999 / 100"
proof -
  let ?price = "bind_Product 0 0 example_body_negative_price"
  let ?stock = "bind_Product 0 0 example_body_negative_stock"
  have found: "FindAsync (Products example_db) 1 = Some example_tea"
    by (simp add: example_db_def example_tea_def)
  have tea: "p_Price example_tea = 999 / 100" "p_Stock example_tea = 5"
    by (simp_all add: example_tea_def)
  have price: "p_Price ?price = - 2" "p_Stock ?price = 0"
    by (simp_all add: bind_Product_def new_Product_def example_body_negative_price_def Let_def)
  have stock: "p_Price ?stock = 0" "p_Stock ?stock = - 7"
    by (simp_all add: bind_Product_def new_Product_def example_body_negative_stock_def Let_def)
  have nz: "p_Price ?price \<noteq> 0" "p_Stock ?stock \<noteq> 0"
    by (simp_all add: price stock)
  let ?pd = "\<lparr>a_name = ''Tea'', a_description = ''Green tea'', a_price = 999 / 100 :: real,
      a_stock = 5, a_category = ''General'', a_image = None\<rparr>"
  have form: "AddProductScreen_handleSubmit example_Number (\<lambda>x. False) (\<lambda>s. s) example_form
      = Inr ?pd"
    by (simp add: AddProductScreen_handleSubmit_def example_Number_def example_form_def)
  note P = post_product_stores_request [where db = example_db and clk = example_clock and k = 1
      and update = ?price]
  note S = post_product_stores_request [where db = example_db and clk = example_clock and k = 1
      and update = ?stock]
  from P found nz(1) price(2) have a:
    "is_Ok (fst (put_product example_db example_clock 1 ?price)) \<and>
     p_Price (body (fst (put_product example_db example_clock 1 ?price))) = p_Price ?price \<and>
     p_Stock (body (fst (put_product example_db example_clock 1 ?price))) = p_Stock example_tea"
    by blast
  from S found nz(2) stock(1) have b:
    "p_Price (body (fst (put_product example_db example_clock 1 ?stock))) = p_Price example_tea \<and>
     p_Stock (body (fst (put_product example_db example_clock 1 ?stock))) = p_Stock ?stock"
    by blast
  from P form have c: "0 < a_price ?pd"
    by blast
  from a b c show ?thesis
    using found form by (simp add: price stock tea)
qed

section \<open>Updating a product: fields the request does not supply\<close>

text \<open>
  Claim C7 does not hold of the code. The stored tea has been deactivated; the update
  request carries the price 4 and nothing else, which is what the edit form of the client
  sends when only the price was changed. The handler answers Ok and the stored
  product has the new price, but also the active flag true, the name and the description
  empty and the category General: the values the \<open>Product\<close> class gives to properties
  the body does not contain. Name, description and category are guarded by \<open>??\<close>, which
  only a JSON \<open>null\<close> passes, and the active flag is assigned without any guard.
\<close>

theorem put_product_overwrites_unsupplied_fields:
  "EditProductScreen_handleSubmit example_Number (\<lambda>x. False) (\<lambda>s. s) example_edit_product
     example_edit_form
     = Inr \<lparr>u_name = None, u_description = None, u_price = Some 4, u_stock = None,
            u_category = None, u_image = Some None\<rparr> \<and>
   b_name example_body_price = None \<and> b_description example_body_price = None \<and>
   b_category example_body_price = None \<and> b_isActive example_body_price = None \<and>
   b_price example_body_price = Some 4 \<and>
   FindAsync (Products example_db_deactivated) 1
     = Some (example_tea\<lparr>p_IsActive := False, p_UpdatedAt := 5000\<rparr>) \<and>
   fst (put_product example_db_deactivated example_clock2 1 (bind_Product 0 0 example_body_price))
     = Ok (example_tea\<lparr>p_Name := Some [], p_Description := Some [], p_Price := 4,
             p_Category := Some ''General'', p_IsActive := True, p_UpdatedAt := 7000\<rparr>) \<and>
   FindAsync (Products (snd (put_product example_db_deactivated example_clock2 1
       (bind_Product 0 0 example_body_price)))) 1
     = Some (example_tea\<lparr>p_Name := Some [], p_Description := Some [], p_Price := 4,
             p_Category := Some ''General'', p_IsActive := True, p_UpdatedAt := 7000\<rparr>)"
  by (simp add: put_product_def merge_update_def bind_Product_def new_Product_def
      delete_product_def example_db_deactivated_def example_body_price_def example_db_def
      example_tea_def example_clock_def example_clock2_def Let_def
      EditProductScreen_handleSubmit_def example_Number_def example_edit_product_def
      example_edit_form_def)

end
